theory Spec2Isabelle
  imports Main
begin

section \<open>Python values and string helpers\<close>

text \<open>
  The handlers pass loosely typed values around (request arguments, JSON payload fields,
  document fields). \<open>pyval\<close> is the part of Python's value space they can hold;
  \<open>truthy\<close> is Python's truth test (\<open>if x\<close>, \<open>not x\<close>, \<open>x or y\<close>).
  Text is a list of characters with code points below 256; JSON numbers are integers.
\<close>

datatype pyval =
    PNone
  | PBool bool
  | PInt int
  | PStr string
  | PList "pyval list"
  | PDict "(string \<times> pyval) list"

fun truthy :: "pyval \<Rightarrow> bool" where
  "truthy PNone = False"
| "truthy (PBool b) = b"
| "truthy (PInt i) = (i \<noteq> 0)"
| "truthy (PStr s) = (s \<noteq> [])"
| "truthy (PList xs) = (xs \<noteq> [])"
| "truthy (PDict kvs) = (kvs \<noteq> [])"

definition py_or :: "pyval \<Rightarrow> pyval \<Rightarrow> pyval" where
  "py_or a b = (if truthy a then a else b)"

fun type_name :: "pyval \<Rightarrow> string" where
  "type_name PNone = ''NoneType''"
| "type_name (PBool b) = ''bool''"
| "type_name (PInt i) = ''int''"
| "type_name (PStr s) = ''str''"
| "type_name (PList xs) = ''list''"
| "type_name (PDict kvs) = ''dict''"

text \<open>Exceptions are values; every one carries the text \<open>str(e)\<close> gives.\<close>

datatype error =
    ValidationError string
  | Forbidden string
  | AttributeError string
  | TypeError string
  | IndexError string
  | DoesNotExistError string
  | JSONDecodeError string
  | StoreError string


definition no_attribute :: "pyval \<Rightarrow> string \<Rightarrow> error" where
  "no_attribute v attr =
     AttributeError ([CHR 0x27] @ type_name v @ [CHR 0x27] @ '' object has no attribute '' @
                     [CHR 0x27] @ attr @ [CHR 0x27])"

text \<open>
  \<open>d.get(k)\<close> and \<open>d.get(k, default)\<close> on a dict held as an association list (of
  pairwise different keys).
\<close>

definition dict_get_default :: "(string \<times> pyval) list \<Rightarrow> string \<Rightarrow> pyval \<Rightarrow> pyval" where
  "dict_get_default d k dflt = (case map_of d k of None \<Rightarrow> dflt | Some v \<Rightarrow> v)"

definition dict_get :: "(string \<times> pyval) list \<Rightarrow> string \<Rightarrow> pyval" where
  "dict_get d k = dict_get_default d k PNone"

text \<open>\<open>str.isspace\<close> on code points below 256, and \<open>str.strip()\<close>.\<close>

definition py_isspace :: "char \<Rightarrow> bool" where
  "py_isspace c \<longleftrightarrow>
     c \<in> set [CHR 0x09, CHR 0x0A, CHR 0x0B, CHR 0x0C, CHR 0x0D,
                CHR 0x1C, CHR 0x1D, CHR 0x1E, CHR 0x1F, CHR 0x20, CHR 0x85, CHR 0xA0]"

definition py_strip :: "string \<Rightarrow> string" where
  "py_strip s = rev (dropWhile py_isspace (rev (dropWhile py_isspace s)))"

text \<open>\<open>s.split(sep)\<close> for a one-character separator: never empty, keeps empty pieces.\<close>

fun py_split :: "char \<Rightarrow> string \<Rightarrow> string list" where
  "py_split sep [] = [[]]"
| "py_split sep (x # xs) =
     (if x = sep then [] # py_split sep xs
      else (case py_split sep xs of
              [] \<Rightarrow> [[x]]
            | w # ws \<Rightarrow> (x # w) # ws))"

text \<open>\<open>re.split(r'\r\n?|\n', s)\<close>: a CR LF pair, a lone CR or a lone LF ends a piece.\<close>

fun split_lines :: "string \<Rightarrow> string list" where
  "split_lines [] = [[]]"
| "split_lines (x # xs) =
     (if x = CHR 0x0D then
        (case xs of
           [] \<Rightarrow> [] # split_lines []
         | y # ys \<Rightarrow> (if y = CHR 0x0A then [] # split_lines ys else [] # split_lines xs))
      else if x = CHR 0x0A then [] # split_lines xs
      else (case split_lines xs of
              [] \<Rightarrow> [[x]]
            | w # ws \<Rightarrow> (x # w) # ws))"

section \<open>HL7 v2 normalizer (api.py)\<close>

text \<open>
  In the repository the text of \<open>api.py\<close> (and of \<open>tests/test_hl7.py\<close>) stands between
  triple quotes; the definitions follow that text.
  The normalized message is the dict \<open>normalize_hl7_v2\<close> and \<open>normalize_from_json\<close>
  return: six keys, each holding any Python value (field \<open>nm_k\<close> for key \<open>k\<close>).
\<close>

record normalized =
  nm_message_id :: pyval
  nm_message_type :: pyval
  nm_payload :: pyval
  nm_source_actor :: pyval
  nm_destination_actor :: pyval
  nm_correlation_id :: pyval

text \<open>
  hl7apy is an optional library outside the repository. \<open>None\<close> stands for
  \<open>HL7APY_AVAILABLE = False\<close>; otherwise the function is \<open>parse_message\<close>, which
  either raises (\<open>None\<close>) or yields a message, held here as what
  \<open>_safe_get_segment_field(seg_name, field_name, None)\<close> returns on it (that helper
  swallows every exception of the field access and answers a string or \<open>None\<close>).
\<close>

type_synonym hl7apy = "(string \<Rightarrow> (string \<Rightarrow> string \<Rightarrow> string option) option) option"

definition opt_py :: "string option \<Rightarrow> pyval" where
  "opt_py v = (case v of None \<Rightarrow> PNone | Some s \<Rightarrow> PStr s)"

text \<open>\<open>combine(a, b)\<close>: \<open>f"{a}|{b}"\<close> when both are truthy, else \<open>a or b\<close>.\<close>

definition combine :: "string option \<Rightarrow> string option \<Rightarrow> string option" where
  "combine a b =
     (case (a, b) of
        (Some x, Some y) \<Rightarrow>
          (if x \<noteq> [] \<and> y \<noteq> [] then Some (x @ ''|'' @ y)
           else if x \<noteq> [] then Some x else Some y)
      | (Some x, None) \<Rightarrow> (if x \<noteq> [] then Some x else None)
      | (None, _) \<Rightarrow> b)"

text \<open>
  The loop that fills \<open>seg_map\<close>: empty lines are skipped, each other line is split on
  \<open>|\<close> and appended to the list kept under its first field
  (\<open>seg_map.setdefault(name, []).append(parts)\<close>).
\<close>

type_synonym seg_map = "string \<Rightarrow> string list list option"

definition add_segment :: "seg_map \<Rightarrow> string \<Rightarrow> seg_map" where
  "add_segment m seg =
     (if seg = [] then m
      else (case py_split CHR ''|'' seg of
              [] \<Rightarrow> m
            | name # rest \<Rightarrow>
                m(name \<mapsto> (case m name of None \<Rightarrow> [] | Some ps \<Rightarrow> ps) @ [name # rest])))"

definition build_seg_map :: "string \<Rightarrow> seg_map" where
  "build_seg_map raw = foldl add_segment Map.empty (split_lines (py_strip raw))"

definition field_at :: "string list \<Rightarrow> nat \<Rightarrow> string option" where
  "field_at parts i = (if i < length parts then Some (parts ! i) else None)"

text \<open>
  The fallback extraction, lines 203 to 232. \<open>seg_map.get("ORC", [[None]])\<close> answers the
  one-element list \<open>[[None]]\<close> when there is no ORC segment: its first entry is truthy
  and has length 1, so the test \<open>len(orc[0]) > 1\<close> fails and the PID branch runs.
\<close>

definition fallback_msh :: "seg_map \<Rightarrow> string list" where
  "fallback_msh m = (case m ''MSH'' of None \<Rightarrow> [] | Some [] \<Rightarrow> [] | Some (p # ps) \<Rightarrow> p)"

definition fallback_correlation :: "seg_map \<Rightarrow> string option" where
  "fallback_correlation m =
     (let orc_ok = (case m ''ORC'' of
                      None \<Rightarrow> None
                    | Some [] \<Rightarrow> None
                    | Some (o0 # os) \<Rightarrow> (if o0 \<noteq> [] \<and> length o0 > 1 then Some o0 else None))
      in case orc_ok of
           Some o0 \<Rightarrow> Some (o0 ! 1)
         | None \<Rightarrow>
             (case m ''PID'' of
                None \<Rightarrow> None
              | Some [] \<Rightarrow> None
              | Some (p0 # ps) \<Rightarrow>
                  (if p0 \<noteq> [] \<and> length p0 > 3
                   then (if length p0 > 3 then Some (p0 ! 3) else Some (p0 ! 2))
                   else None)))"

definition normalize_fallback :: "(nat \<Rightarrow> string) \<Rightarrow> string \<Rightarrow> normalized" where
  "normalize_fallback generate_hash raw =
     (let m = build_seg_map raw;
          msh = fallback_msh m;
          mtype = (if msh \<noteq> [] \<and> length msh > 8 then Some (msh ! 8) else None);
          mid = (if msh \<noteq> [] \<and> length msh > 9 then Some (msh ! 9) else None);
          src = (if msh \<noteq> [] then combine (field_at msh 2) (field_at msh 3) else None);
          dst = (if msh \<noteq> [] then combine (field_at msh 4) (field_at msh 5) else None);
          corr = fallback_correlation m
      in \<lparr> nm_message_id = py_or (opt_py mid) (PStr (generate_hash 0)),
           nm_message_type = py_or (opt_py mtype) (PStr ''UNKNOWN''),
           nm_payload = PStr raw,
           nm_source_actor = opt_py src,
           nm_destination_actor = opt_py dst,
           nm_correlation_id = opt_py corr \<rparr>)"

text \<open>The hl7apy branch, lines 143 to 174, on the field accessor of a parsed message.\<close>

definition normalize_hl7apy ::
  "(nat \<Rightarrow> string) \<Rightarrow> (string \<Rightarrow> string \<Rightarrow> string option) \<Rightarrow> string \<Rightarrow> normalized" where
  "normalize_hl7apy generate_hash fld raw =
     (let mtype = fld ''MSH'' ''msh_9'';
          mid = fld ''MSH'' ''msh_10'';
          src = combine (fld ''MSH'' ''msh_3'') (fld ''MSH'' ''msh_4'');
          dst = combine (fld ''MSH'' ''msh_5'') (fld ''MSH'' ''msh_6'');
          orc2 = fld ''ORC'' ''orc_2'';
          corr = (if truthy (opt_py orc2) then orc2 else fld ''PID'' ''pid_3'')
      in \<lparr> nm_message_id = py_or (opt_py mid) (PStr (generate_hash 0)),
           nm_message_type = py_or (opt_py mtype) (PStr ''UNKNOWN''),
           nm_payload = PStr raw,
           nm_source_actor = opt_py src,
           nm_destination_actor = opt_py dst,
           nm_correlation_id = opt_py corr \<rparr>)"

definition normalize_hl7_v2 :: "hl7apy \<Rightarrow> (nat \<Rightarrow> string) \<Rightarrow> string \<Rightarrow> normalized" where
  "normalize_hl7_v2 lib generate_hash raw =
     (if raw = [] then
        \<lparr> nm_message_id = PStr (generate_hash 0),
          nm_message_type = PStr ''UNKNOWN'',
          nm_payload = PStr raw,
          nm_source_actor = PNone,
          nm_destination_actor = PNone,
          nm_correlation_id = PNone \<rparr>
      else (case lib of
              None \<Rightarrow> normalize_fallback generate_hash raw
            | Some parse_message \<Rightarrow>
                (case parse_message raw of
                   None \<Rightarrow> normalize_fallback generate_hash raw
                 | Some fld \<Rightarrow> normalize_hl7apy generate_hash fld raw)))"

section \<open>The record store\<close>

text \<open>
  The persistence store holds one table per DocType, each a list of rows in insertion
  order. A row's position stands for the document name Frappe gives it. Field values are
  compared structurally by the filters. Besides the tables the state keeps a log of every
  write (\<open>insert\<close>, \<open>save\<close>, \<open>commit\<close>), the queue of background jobs and the
  error log \<open>frappe.log_error\<close> appends to. A field the creating dict leaves out is
  \<open>PNone\<close>. Field \<open>f\<close> of a DocType is named with the DocType's tag in front.
\<close>

record message_doc =
  msg_message_id :: pyval
  msg_message_type :: pyval
  msg_payload :: pyval
  msg_source :: pyval
  msg_destination :: pyval
  msg_correlation_id :: pyval
  msg_status :: pyval
  msg_received_at :: pyval

record ian_doc =
  ian_ian_id :: pyval
  ian_source :: pyval
  ian_sop_instance_uids :: pyval
  ian_availability_status :: pyval
  ian_timestamp :: pyval

record sop_doc =
  sop_sop_uid :: pyval
  sop_stored_at_aet :: pyval
  sop_patient_id :: pyval
  sop_accession_number :: pyval
  sop_created_at :: pyval

record pps_doc =
  pps_pps_uid :: pyval
  pps_sps :: pyval
  pps_rp :: pyval
  pps_actor :: pyval
  pps_status :: pyval
  pps_instance_uids :: pyval
  pps_created_at :: pyval

record sps_doc =
  sps_sps_uid :: pyval
  sps_status :: pyval

record ups_doc =
  ups_ups_id :: pyval
  ups_rp :: pyval
  ups_ups_status :: pyval
  ups_actor :: pyval
  ups_instance_uids :: pyval
  ups_start_time :: pyval
  ups_end_time :: pyval

datatype db_write = Inserted string pyval | Saved string pyval | Committed

datatype job = Job string pyval

datatype log_message = Text "pyval list" | Traceback error

record store =
  tab_message :: "message_doc list"
  tab_ian :: "ian_doc list"
  tab_sop :: "sop_doc list"
  tab_pps :: "pps_doc list"
  tab_sps :: "sps_doc list"
  tab_ups :: "ups_doc list"
  writes :: "db_write list"
  queue :: "job list"
  error_log :: "(log_message \<times> string) list"

definition empty_store :: store where
  "empty_store = \<lparr> tab_message = [], tab_ian = [], tab_sop = [], tab_pps = [], tab_sps = [],
                    tab_ups = [], writes = [], queue = [], error_log = [] \<rparr>"


definition get_all_ian :: "pyval \<Rightarrow> store \<Rightarrow> ian_doc list" where
  "get_all_ian v s = filter (\<lambda>d. ian_ian_id d = v) (tab_ian s)"

definition get_all_sop :: "pyval \<Rightarrow> store \<Rightarrow> sop_doc list" where
  "get_all_sop v s = filter (\<lambda>d. sop_sop_uid d = v) (tab_sop s)"

definition get_all_pps :: "pyval \<Rightarrow> store \<Rightarrow> pps_doc list" where
  "get_all_pps v s = filter (\<lambda>d. pps_pps_uid d = v) (tab_pps s)"

definition get_all_ups :: "pyval \<Rightarrow> store \<Rightarrow> ups_doc list" where
  "get_all_ups v s = filter (\<lambda>d. ups_ups_id d = v) (tab_ups s)"

text \<open>\<open>doc.insert(ignore_permissions=True)\<close>.\<close>

definition insert_message :: "message_doc \<Rightarrow> store \<Rightarrow> store" where
  "insert_message d s =
     s\<lparr> tab_message := tab_message s @ [d],
        writes := writes s @ [Inserted ''Message'' (msg_message_id d)] \<rparr>"

definition insert_ian :: "ian_doc \<Rightarrow> store \<Rightarrow> store" where
  "insert_ian d s =
     s\<lparr> tab_ian := tab_ian s @ [d],
        writes := writes s @ [Inserted ''Instance Availability Notification'' (ian_ian_id d)] \<rparr>"

definition insert_sop :: "sop_doc \<Rightarrow> store \<Rightarrow> store" where
  "insert_sop d s =
     s\<lparr> tab_sop := tab_sop s @ [d],
        writes := writes s @ [Inserted ''SOPInstance'' (sop_sop_uid d)] \<rparr>"

definition insert_pps :: "pps_doc \<Rightarrow> store \<Rightarrow> store" where
  "insert_pps d s =
     s\<lparr> tab_pps := tab_pps s @ [d],
        writes := writes s @ [Inserted ''Performed Procedure Step'' (pps_pps_uid d)] \<rparr>"

definition insert_ups :: "ups_doc \<Rightarrow> store \<Rightarrow> store" where
  "insert_ups d s =
     s\<lparr> tab_ups := tab_ups s @ [d],
        writes := writes s @ [Inserted ''Unified Procedure Step'' (ups_ups_id d)] \<rparr>"

text \<open>
  \<open>frappe.get_doc(doctype, {key: value})\<close> loads the first row with that key, with its
  position, or raises when there is none (\<open>None\<close> here; the callers catch it).
  \<open>doc.save(ignore_permissions=True)\<close> writes the row back at its position.
\<close>

fun find_row :: "('a \<Rightarrow> bool) \<Rightarrow> 'a list \<Rightarrow> (nat \<times> 'a) option" where
  "find_row P [] = None"
| "find_row P (x # xs) =
     (if P x then Some (0, x)
      else (case find_row P xs of None \<Rightarrow> None | Some (i, y) \<Rightarrow> Some (Suc i, y)))"

definition get_doc_pps :: "pyval \<Rightarrow> store \<Rightarrow> (nat \<times> pps_doc) option" where
  "get_doc_pps v s = find_row (\<lambda>d. pps_pps_uid d = v) (tab_pps s)"

definition get_doc_sps :: "pyval \<Rightarrow> store \<Rightarrow> (nat \<times> sps_doc) option" where
  "get_doc_sps v s = find_row (\<lambda>d. sps_sps_uid d = v) (tab_sps s)"

definition save_sps :: "nat \<Rightarrow> sps_doc \<Rightarrow> store \<Rightarrow> store" where
  "save_sps i d s =
     s\<lparr> tab_sps := (tab_sps s)[i := d],
        writes := writes s @ [Saved ''Scheduled Procedure Step'' (sps_sps_uid d)] \<rparr>"

definition enqueue :: "string \<Rightarrow> pyval \<Rightarrow> store \<Rightarrow> store" where
  "enqueue method key s = s\<lparr> queue := queue s @ [Job method key] \<rparr>"

definition log_error :: "log_message \<Rightarrow> string \<Rightarrow> store \<Rightarrow> store" where
  "log_error msg title s = s\<lparr> error_log := error_log s @ [(msg, title)] \<rparr>"

text \<open>
  What a call needs from outside the repository: the clock (\<open>frappe.utils.now()\<close>, read
  once per call), the site configuration's \<open>dwf_api_secret\<close>, Python's \<open>hmac\<close> with
  SHA-256 (\<open>hmac.new(secret.encode("utf-8"), msg, sha256).hexdigest()\<close>), \<open>json.dumps\<close>
  (followed by the UTF-8 encoding where the source encodes) and \<open>json.loads\<close>,
  \<open>frappe.generate_hash()\<close> by the number of the call site, and hl7apy.
\<close>

record env =
  now :: string
  dwf_api_secret :: "string option"
  hmac_sha256_hexdigest :: "string \<Rightarrow> string \<Rightarrow> string"
  json_dumps :: "pyval \<Rightarrow> string"
  json_loads :: "string \<Rightarrow> error + pyval"
  generate_hash :: "nat \<Rightarrow> string"
  hl7apy_parse_message :: hl7apy

type_synonym reply = "(string \<times> pyval) list"

text \<open>
  A call returns its reply or the exception it raised, and the store as the call left it
  (an exception does not undo the writes made before it).
\<close>

type_synonym 'a result = "(error + 'a) \<times> store"

section \<open>Whitelisted endpoints (frappe_dwf/api.py)\<close>

text \<open>\<open>[u.strip() for u in s.split(',') if u.strip()]\<close>\<close>

definition uid_list :: "string \<Rightarrow> string list" where
  "uid_list s = map py_strip (filter (\<lambda>u. py_strip u \<noteq> []) (py_split CHR '','' s))"

text \<open>
  \<open>x.split(',')\<close> on a value that need not be a string: anything else has no
  \<open>split\<close>.
\<close>

definition split_uid_value :: "pyval \<Rightarrow> error + string list" where
  "split_uid_value v = (case v of PStr u \<Rightarrow> Inr (uid_list u) | _ \<Rightarrow> Inl (no_attribute v ''split''))"

text \<open>The inline get-or-create of \<open>receive_ian\<close>: lines 26 to 34.\<close>

definition ian_sop_step :: "env \<Rightarrow> pyval \<Rightarrow> store \<Rightarrow> string \<Rightarrow> store" where
  "ian_sop_step e source s uid =
     (if get_all_sop (PStr uid) s = [] then
        insert_sop \<lparr> sop_sop_uid = PStr uid,
                     sop_stored_at_aet = py_or source (PStr []),
                     sop_patient_id = PNone,
                     sop_accession_number = PNone,
                     sop_created_at = PStr (now e) \<rparr> s
      else s)"

definition receive_ian :: "env \<Rightarrow> pyval \<Rightarrow> pyval \<Rightarrow> pyval \<Rightarrow> pyval \<Rightarrow> store \<Rightarrow> reply result" where
  "receive_ian e ian_id source sop_uids availability_status s =
     (if \<not> truthy ian_id then (Inl (ValidationError ''ian_id is required''), s)
      else if get_all_ian ian_id s \<noteq> [] then
        (Inr [(''status'', PStr ''exists''), (''ian_id'', ian_id)], s)
      else
        (let s1 = insert_ian \<lparr> ian_ian_id = ian_id,
                                ian_source = py_or source (PStr []),
                                ian_sop_instance_uids = py_or sop_uids (PStr []),
                                ian_availability_status = availability_status,
                                ian_timestamp = PStr (now e) \<rparr> s
         in case (if truthy sop_uids then split_uid_value sop_uids else Inr []) of
              Inl err \<Rightarrow> (Inl err, s1)
            | Inr uids \<Rightarrow>
                (let s2 = foldl (ian_sop_step e source) s1 uids;
                     s3 = enqueue ''frappe_dwf.api._process_ian'' ian_id s2
                 in (Inr [(''status'', PStr ''created''), (''ian_id'', ian_id)], s3))))"

definition create_pps ::
  "env \<Rightarrow> pyval \<Rightarrow> pyval \<Rightarrow> pyval \<Rightarrow> pyval \<Rightarrow> pyval \<Rightarrow> pyval \<Rightarrow> store \<Rightarrow> reply result" where
  "create_pps e pps_uid sps_uid rp_id actor status instance_uids s =
     (if \<not> truthy pps_uid then (Inl (ValidationError ''pps_uid is required''), s)
      else if get_all_pps pps_uid s \<noteq> [] then
        (Inr [(''status'', PStr ''exists''), (''pps_uid'', pps_uid)], s)
      else
        (let s1 = insert_pps \<lparr> pps_pps_uid = pps_uid,
                                pps_sps = py_or sps_uid (PStr []),
                                pps_rp = py_or rp_id (PStr []),
                                pps_actor = py_or actor (PStr []),
                                pps_status = status,
                                pps_instance_uids = py_or instance_uids (PStr []),
                                pps_created_at = PStr (now e) \<rparr> s;
             s2 = enqueue ''frappe_dwf.api._process_pps'' pps_uid s1
         in (Inr [(''status'', PStr ''created''), (''pps_uid'', pps_uid)], s2)))"

text \<open>The get-or-create of \<open>_process_pps\<close> and \<open>create_ups\<close>: only the UID and the time.\<close>

definition bare_sop_step :: "env \<Rightarrow> store \<Rightarrow> string \<Rightarrow> store" where
  "bare_sop_step e s uid =
     (if get_all_sop (PStr uid) s = [] then
        insert_sop \<lparr> sop_sop_uid = PStr uid,
                     sop_stored_at_aet = PNone,
                     sop_patient_id = PNone,
                     sop_accession_number = PNone,
                     sop_created_at = PStr (now e) \<rparr> s
      else s)"

text \<open>
  \<open>_process_pps\<close>, the background job \<open>create_pps\<close> enqueues. A PPS that cannot be
  loaded ends the job quietly. The SPS update sits in a \<open>try\<close> whose handler is
  \<open>pass\<close>, so a missing SPS changes nothing; a found one is saved whatever its status.
\<close>

definition process_pps_sps :: "pps_doc \<Rightarrow> store \<Rightarrow> store" where
  "process_pps_sps pps s =
     (if truthy (pps_sps pps) then
        (case get_doc_sps (pps_sps pps) s of
           None \<Rightarrow> s
         | Some (i, sps) \<Rightarrow>
             save_sps i (sps\<lparr> sps_status :=
                               (if pps_status pps = PStr ''COMPLETED'' then PStr ''Completed''
                                else sps_status sps) \<rparr>) s)
      else s)"

definition process_pps :: "env \<Rightarrow> pyval \<Rightarrow> store \<Rightarrow> unit result" where
  "process_pps e pps_uid s =
     (case get_doc_pps pps_uid s of
        None \<Rightarrow> (Inr (), s)
      | Some (i, pps) \<Rightarrow>
          (let s1 = process_pps_sps pps s
           in case split_uid_value (py_or (pps_instance_uids pps) (PStr [])) of
                Inl err \<Rightarrow> (Inl err, s1)
              | Inr uids \<Rightarrow> (Inr (), foldl (bare_sop_step e) s1 uids)))"

definition create_ups ::
  "env \<Rightarrow> pyval \<Rightarrow> pyval \<Rightarrow> pyval \<Rightarrow> pyval \<Rightarrow> pyval \<Rightarrow> store \<Rightarrow> reply result" where
  "create_ups e ups_id rp_id ups_status actor instance_uids s =
     (if \<not> truthy ups_id then (Inl (ValidationError ''ups_id is required''), s)
      else if get_all_ups ups_id s \<noteq> [] then
        (Inr [(''status'', PStr ''exists''), (''ups_id'', ups_id)], s)
      else
        (let s1 = insert_ups
                    \<lparr> ups_ups_id = ups_id,
                      ups_rp = py_or rp_id (PStr []),
                      ups_ups_status = ups_status,
                      ups_actor = py_or actor (PStr []),
                      ups_instance_uids = instance_uids,
                      ups_start_time =
                        (if ups_status = PStr ''IN-PROGRESS'' then PStr (now e) else PNone),
                      ups_end_time =
                        (if ups_status \<in> set [PStr ''COMPLETED'', PStr ''FAILED'', PStr ''CANCELLED'']
                         then PStr (now e) else PNone) \<rparr> s
         in if truthy instance_uids \<and> ups_status = PStr ''COMPLETED'' then
              (case split_uid_value instance_uids of
                 Inl err \<Rightarrow> (Inl err, s1)
               | Inr uids \<Rightarrow>
                   (Inr [(''status'', PStr ''created''), (''ups_id'', ups_id)],
                    foldl (bare_sop_step e) s1 uids))
            else (Inr [(''status'', PStr ''created''), (''ups_id'', ups_id)], s1)))"

section \<open>Signature verification (ian_mpps_handlers.py)\<close>

definition py_startswith :: "string \<Rightarrow> string \<Rightarrow> bool" where
  "py_startswith s p \<longleftrightarrow> take (length p) s = p"

text \<open>\<open>s.split(sep, 1)\<close>: at most one cut, at the first separator.\<close>

fun py_split1 :: "char \<Rightarrow> string \<Rightarrow> string list" where
  "py_split1 sep [] = [[]]"
| "py_split1 sep (x # xs) =
     (if x = sep then [[], xs]
      else (case py_split1 sep xs of
              [] \<Rightarrow> [[x]]
            | w # ws \<Rightarrow> (x # w) # ws))"

text \<open>
  \<open>hmac.compare_digest\<close> on two \<open>str\<close> arguments raises \<open>TypeError\<close> unless both are
  ASCII; otherwise it answers whether they are equal. Its running time is outside the
  model.
\<close>

definition is_ascii :: "string \<Rightarrow> bool" where
  "is_ascii s \<longleftrightarrow> list_all (\<lambda>c. \<not> digit7 c) s"

definition compare_digest :: "string \<Rightarrow> string \<Rightarrow> error + bool" where
  "compare_digest a b =
     (if is_ascii a \<and> is_ascii b then Inr (a = b)
      else Inl (TypeError ''comparing strings with non-ASCII characters is not supported''))"

text \<open>The signature text of a header value: lines 51 to 54.\<close>

definition signature_of :: "string \<Rightarrow> error + string" where
  "signature_of sig_header =
     (if py_startswith sig_header ''sha256='' then
        (case py_split1 CHR ''='' sig_header of
           a # b # rest \<Rightarrow> Inr b
         | _ \<Rightarrow> Inl (IndexError ''list index out of range''))
      else Inr sig_header)"

definition verify_signature ::
  "env \<Rightarrow> (string \<times> pyval) list option \<Rightarrow> string \<Rightarrow> store \<Rightarrow> bool result" where
  "verify_signature e headers body_bytes s =
     (case dwf_api_secret e of
        None \<Rightarrow> (Inr True, s)
      | Some secret \<Rightarrow>
          (if secret = [] then (Inr True, s)
           else (case headers of
                   None \<Rightarrow> (Inl (no_attribute PNone ''get''), s)
                 | Some h \<Rightarrow>
                     (let sig_header = py_or (dict_get h ''X-Signature'') (dict_get h ''X-Hub-Signature'')
                      in if \<not> truthy sig_header then
                           (Inr False,
                            log_error (Text [PStr ''Missing signature header for IAN/MPPS request''])
                              ''frappe_dwf.signature'' s)
                         else (case sig_header of
                                 PStr sh \<Rightarrow>
                                   (case signature_of sh of
                                      Inl err \<Rightarrow> (Inl err, s)
                                    | Inr sig \<Rightarrow>
                                        (case compare_digest
                                                (hmac_sha256_hexdigest e secret body_bytes) sig of
                                           Inl err \<Rightarrow> (Inl err, s)
                                         | Inr valid \<Rightarrow>
                                             (if \<not> valid then
                                                (Inr False,
                                                 log_error
                                                   (Text [PStr ''Invalid signature for IAN/MPPS request''])
                                                   ''frappe_dwf.signature'' s)
                                              else (Inr True, s))))
                               | _ \<Rightarrow> (Inl (no_attribute sig_header ''startswith''), s))))))"

section \<open>UID utilities and enqueue helpers\<close>

fun comma_join :: "string list \<Rightarrow> string" where
  "comma_join [] = []"
| "comma_join [u] = u"
| "comma_join (u # v # vs) = u @ '','' @ comma_join (v # vs)"

text \<open>
  Modelled from the spec: \<open>utils.normalize_uids\<close> (module \<open>utils\<close> is imported by
  \<open>ian_mpps_handlers.py\<close> and is not among the sources). Section 4.5: it accepts a
  delimited string or an ordered sequence of strings and produces one canonical delimited
  form, comma-separated, trimmed, empty entries dropped. Anything that is neither (an
  absent key gives \<open>None\<close>) has no entries; a non-string member of a sequence gives none.
\<close>

definition normalize_uids :: "pyval \<Rightarrow> string" where
  "normalize_uids v =
     (case v of
        PStr s \<Rightarrow> comma_join (uid_list s)
      | PList xs \<Rightarrow>
          comma_join (filter (\<lambda>u. u \<noteq> [])
            (map py_strip (concat (map (\<lambda>x. case x of PStr u \<Rightarrow> [u] | _ \<Rightarrow> []) xs))))
      | _ \<Rightarrow> [])"

text \<open>
  Modelled from the spec: \<open>utils.split_uids\<close>, section 4.5, the inverse of
  \<open>normalize_uids\<close> for iteration: the entries of a canonical form, in order.
\<close>

definition split_uids :: "string \<Rightarrow> string list" where
  "split_uids c = uid_list c"

text \<open>
  Modelled from the spec: \<open>utils.get_or_create_sopinstance\<close>, section 4.5: looks the UID
  up; if absent, creates the record with the supplied optional metadata; if present,
  leaves the existing record as it is.
\<close>

definition get_or_create_sopinstance ::
  "env \<Rightarrow> string \<Rightarrow> pyval \<Rightarrow> pyval \<Rightarrow> pyval \<Rightarrow> store \<Rightarrow> store" where
  "get_or_create_sopinstance e uid stored_at_aet patient_id accession_number s =
     (if get_all_sop (PStr uid) s = [] then
        insert_sop \<lparr> sop_sop_uid = PStr uid,
                     sop_stored_at_aet = stored_at_aet,
                     sop_patient_id = patient_id,
                     sop_accession_number = accession_number,
                     sop_created_at = PStr (now e) \<rparr> s
      else s)"

text \<open>
  Modelled from the spec: \<open>handlers.enqueue_process_ian\<close> (module \<open>handlers\<close> is
  imported by \<open>ian_mpps_handlers.py\<close> and is not among the sources). Section 4.6, step
  7: it schedules the post-processing job identified by the primary key.
\<close>

definition enqueue_process_ian :: "pyval \<Rightarrow> store \<Rightarrow> store" where
  "enqueue_process_ian ian_id s = enqueue ''process_ian'' ian_id s"

text \<open>
  Modelled from the spec: \<open>handlers.enqueue_process_pps\<close>, the same step for a PPS.
\<close>

definition enqueue_process_pps :: "pyval \<Rightarrow> store \<Rightarrow> store" where
  "enqueue_process_pps pps_uid s = enqueue ''process_pps'' pps_uid s"

section \<open>IAN and MPPS ingestion (ian_mpps_handlers.py)\<close>

text \<open>
  Lines 82 to 84 of \<open>ingest_ian\<close> and 147 to 149 of \<open>ingest_mpps\<close>, the same text: the
  verifier runs only when \<open>request_headers\<close> is truthy (a non-empty dict), and a
  \<open>False\<close> from it raises \<open>Forbidden\<close>.
\<close>

definition headers_truthy :: "(string \<times> pyval) list option \<Rightarrow> bool" where
  "headers_truthy h = (case h of None \<Rightarrow> False | Some kvs \<Rightarrow> kvs \<noteq> [])"

definition check_signature ::
  "env \<Rightarrow> (string \<times> pyval) list \<Rightarrow> (string \<times> pyval) list option \<Rightarrow> store \<Rightarrow> unit result" where
  "check_signature e payload request_headers s =
     (let body_bytes = json_dumps e (PDict payload)
      in if headers_truthy request_headers then
           (case verify_signature e request_headers body_bytes s of
              (Inl err, s') \<Rightarrow> (Inl err, s')
            | (Inr ok, s') \<Rightarrow>
                (if \<not> ok then (Inl (Forbidden ''Forbidden: invalid signature''), s')
                 else (Inr (), s')))
         else (Inr (), s))"

text \<open>
  The body of the \<open>try\<close> of \<open>ingest_ian\<close> raises nowhere in this model (the store's own
  failures are not modelled here), so its handler, which logs and re-raises, never runs.
\<close>

definition ingest_ian ::
  "env \<Rightarrow> (string \<times> pyval) list \<Rightarrow> (string \<times> pyval) list option \<Rightarrow> store \<Rightarrow> reply result" where
  "ingest_ian e payload request_headers s =
     (case check_signature e payload request_headers s of
        (Inl err, s0) \<Rightarrow> (Inl err, s0)
      | (Inr u, s0) \<Rightarrow>
          (let ian_id = dict_get payload ''ian_id''
           in if \<not> truthy ian_id then
                (Inl (ValidationError ''IAN payload missing required field: ian_id''), s0)
              else if get_all_ian ian_id s0 \<noteq> [] then
                (Inr [(''status'', PStr ''exists''), (''ian_id'', ian_id)], s0)
              else
                (let uids = normalize_uids (py_or (dict_get payload ''sop_instance_uids'')
                                                  (dict_get payload ''sop_uids''));
                     s1 = insert_ian
                            \<lparr> ian_ian_id = ian_id,
                              ian_source = py_or (dict_get payload ''source'') (PStr []),
                              ian_sop_instance_uids = PStr uids,
                              ian_availability_status =
                                dict_get_default payload ''availability_status'' (PStr ''Available''),
                              ian_timestamp = py_or (dict_get payload ''timestamp'') (PStr (now e)) \<rparr> s0;
                     s2 = foldl (\<lambda>st uid. get_or_create_sopinstance e uid
                                   (dict_get payload ''source'') (dict_get payload ''patient_id'')
                                   (dict_get payload ''accession_number'') st)
                            s1 (split_uids uids);
                     s3 = enqueue_process_ian ian_id s2
                 in (Inr [(''status'', PStr ''created''), (''ian_id'', ian_id)], s3))))"

text \<open>
  The SPS update of \<open>ingest_mpps\<close>, lines 179 to 189: a missing SPS is logged; a found
  one is changed and saved only when its status is not yet \<open>Completed\<close>. The log message
  is kept as the pieces of its f-string.
\<close>

definition mpps_update_sps :: "pyval \<Rightarrow> pyval \<Rightarrow> store \<Rightarrow> store" where
  "mpps_update_sps sps_uid pps_uid s =
     (if truthy sps_uid then
        (case get_doc_sps sps_uid s of
           None \<Rightarrow>
             log_error (Text [PStr ''SPS '', sps_uid, PStr '' referenced by PPS '', pps_uid,
                              PStr '' not found'']) ''frappe_dwf.mpps'' s
         | Some (i, sps) \<Rightarrow>
             (if sps_status sps \<noteq> PStr ''Completed''
              then save_sps i (sps\<lparr> sps_status := PStr ''Completed'' \<rparr>) s
              else s))
      else s)"

definition ingest_mpps ::
  "env \<Rightarrow> (string \<times> pyval) list \<Rightarrow> (string \<times> pyval) list option \<Rightarrow> store \<Rightarrow> reply result" where
  "ingest_mpps e payload request_headers s =
     (case check_signature e payload request_headers s of
        (Inl err, s0) \<Rightarrow> (Inl err, s0)
      | (Inr u, s0) \<Rightarrow>
          (let pps_uid = dict_get payload ''pps_uid''
           in if \<not> truthy pps_uid then
                (Inl (ValidationError ''MPPS payload missing required field: pps_uid''), s0)
              else if get_all_pps pps_uid s0 \<noteq> [] then
                (Inr [(''status'', PStr ''exists''), (''pps_uid'', pps_uid)], s0)
              else
                (let uids = normalize_uids (dict_get payload ''instance_uids'');
                     s1 = insert_pps
                            \<lparr> pps_pps_uid = pps_uid,
                              pps_sps = py_or (dict_get payload ''sps_uid'') (PStr []),
                              pps_rp = py_or (dict_get payload ''rp_id'') (PStr []),
                              pps_actor = py_or (dict_get payload ''actor'') (PStr []),
                              pps_status = dict_get_default payload ''status'' (PStr ''COMPLETED''),
                              pps_instance_uids = PStr uids,
                              pps_created_at = py_or (dict_get payload ''created_at'') (PStr (now e)) \<rparr> s0;
                     s2 = mpps_update_sps (dict_get payload ''sps_uid'') pps_uid s1;
                     s3 = foldl (\<lambda>st uid. get_or_create_sopinstance e uid
                                   (dict_get payload ''actor'') (dict_get payload ''patient_id'')
                                   (dict_get payload ''accession_number'') st)
                            s2 (split_uids uids);
                     s4 = enqueue_process_pps pps_uid s3
                 in (Inr [(''status'', PStr ''created''), (''pps_uid'', pps_uid)], s4))))"

section \<open>Inbound message gateway (api.py)\<close>







definition commit :: "store \<Rightarrow> store" where
  "commit s = s\<lparr> writes := writes s @ [Committed] \<rparr>"








text \<open>The sample message of \<open>tests/test_hl7.py\<close>, by the encoding characters of its MSH-2.\<close>

definition sample_hl7 :: "string \<Rightarrow> string" where
  "sample_hl7 enc =
     ''MSH|'' @ enc @ ''|SendingApp|SendingFac|ReceivingApp|ReceivingFac|202511121130||ORM^O01|MSG00001|P|2.5.1'' @ [CHR 0x0D] @
     ''PID|1||123456^^^Hospital^MR||Doe^John||19800101|M'' @ [CHR 0x0D] @
     ''PV1|1|I|W^389^1^A||||1234^Physician^Primary|||||||||||'' @ [CHR 0x0D] @
     ''ORC|NW|ORD448||OC456|CM||||202511121130|||1234^Clinician'' @ [CHR 0x0D] @
     ''OBR|1|ORD448||TEST^Test Order^L|||||||||||||||||1234^Clinician'' @ [CHR 0x0D] @
     ''NTE|1||Sample order note''"

definition SAMPLE_HL7 :: string where
  "SAMPLE_HL7 = sample_hl7 (''^'' @ [CHR 0x5C] @ ''&'')"

section \<open>Worked inputs\<close>

text \<open>
  The digest \<open>hexdigest()\<close> returns for SHA-256: 64 lower-case hexadecimal digits.
\<close>

definition is_hexdigest :: "string \<Rightarrow> bool" where
  "is_hexdigest d \<longleftrightarrow> length d = 64 \<and> list_all (\<lambda>c. c \<in> set ''0123456789abcdef'') d"

text \<open>
  A concrete environment for the worked examples. Its digest is a stand-in with the shape
  of a SHA-256 hex digest (the hex digits of key and message, cut or padded to 64); it is
  not a MAC and only serves to run the handlers on concrete inputs.
\<close>

definition hex_digit :: "nat \<Rightarrow> char" where
  "hex_digit n = ''0123456789abcdef'' ! (n mod 16)"

definition toy_digest :: "string \<Rightarrow> string \<Rightarrow> string" where
  "toy_digest k m =
     take 64 (concat (map (\<lambda>c. [hex_digit (of_char c div 16), hex_digit (of_char c)]) (k @ m))
              @ replicate 64 CHR ''0'')"

definition test_env :: env where
  "test_env = \<lparr> now = ''2025-11-14 16:00:00'',
                 dwf_api_secret = Some ''s3cret'',
                 hmac_sha256_hexdigest = toy_digest,
                 json_dumps = (\<lambda>v. (case v of PDict kvs \<Rightarrow> concat (map fst kvs) | _ \<Rightarrow> ''?'')),
                 json_loads = (\<lambda>t. Inl (JSONDecodeError ''Expecting value'')),
                 generate_hash = (\<lambda>n. ''hash'' @ replicate n CHR ''x''),
                 hl7apy_parse_message = None \<rparr>"

text \<open>The sample with the standard encoding characters in MSH-2, and a message whose PID
  segment has three fields and which has no ORC segment.\<close>

definition SAMPLE_HL7_STD :: string where
  "SAMPLE_HL7_STD = sample_hl7 (''^~'' @ [CHR 0x5C] @ ''&'')"

definition SHORT_PID_HL7 :: string where
  "SHORT_PID_HL7 =
     ''MSH|^~'' @ [CHR 0x5C] @ ''&|A|B|C|D|T||ORM^O01|ID1|P|2.5.1'' @ [CHR 0x0D] @ ''PID|1|PAT77''"


text \<open>
  The field lists the loop over the lines appends to \<open>seg_map\<close>, in the order of the
  message: one per non-empty line.
\<close>

definition split_segments :: "string \<Rightarrow> string list list" where
  "split_segments raw =
     map (py_split CHR ''|'') (filter (\<lambda>seg. seg \<noteq> []) (split_lines (py_strip raw)))"

definition first_segment :: "string \<Rightarrow> string \<Rightarrow> string list option" where
  "first_segment name raw =
     (case filter (\<lambda>parts. hd parts = name) (split_segments raw) of
        [] \<Rightarrow> None
      | parts # rest \<Rightarrow> Some parts)"

section \<open>Bodies and digests\<close>

text \<open>
  Two bodies of the same length that differ in exactly one byte.
\<close>

definition single_byte_change :: "string \<Rightarrow> string \<Rightarrow> bool" where
  "single_byte_change b b' \<longleftrightarrow>
     length b = length b' \<and> length (filter (\<lambda>(x, y). x \<noteq> y) (zip b b')) = 1"

text \<open>
  HMAC-SHA256 under the secret has no collision on two bodies: when the bodies differ,
  so do their digests.
\<close>

definition collision_free :: "env \<Rightarrow> string \<Rightarrow> string \<Rightarrow> string \<Rightarrow> bool" where
  "collision_free e secret b b' \<longleftrightarrow>
     (b \<noteq> b' \<longrightarrow> hmac_sha256_hexdigest e secret b \<noteq> hmac_sha256_hexdigest e secret b')"

text \<open>The saves of Scheduled Procedure Steps among the writes of a store.\<close>

fun is_sps_save :: "db_write \<Rightarrow> bool" where
  "is_sps_save (Saved doctype key) = (doctype = ''Scheduled Procedure Step'')"
| "is_sps_save (Inserted doctype key) = False"
| "is_sps_save Committed = False"

definition sps_saves :: "store \<Rightarrow> db_write list" where
  "sps_saves s = filter is_sps_save (writes s)"

text \<open>
  Inputs for the worked examples: a store whose only row is the Scheduled Procedure Step
  \<open>SPS-1\<close> with a given status, and an MPPS payload that references it.
\<close>

definition sps_store :: "string \<Rightarrow> store" where
  "sps_store st =
     empty_store\<lparr> tab_sps := [\<lparr> sps_sps_uid = PStr ''SPS-1'', sps_status = PStr st \<rparr>] \<rparr>"

definition mpps_payload :: "string \<Rightarrow> string \<Rightarrow> (string \<times> pyval) list" where
  "mpps_payload pps_uid status =
     [(''pps_uid'', PStr pps_uid), (''sps_uid'', PStr ''SPS-1''), (''status'', PStr status),
      (''instance_uids'', PList [PStr ''1.2.3'', PStr '' 1.2.4 ''])]"

text \<open>
  More inputs for the worked examples: the IAN payload of the docstring of \<open>ingest_ian\<close>
  under a given identifier, headers that sign a payload for \<open>test_env\<close>, the request of
  the integration test of \<open>tests/test_hl7.py\<close>, and a store that never fails.
\<close>

definition ian_payload :: "string \<Rightarrow> (string \<times> pyval) list" where
  "ian_payload ian_id =
     [(''ian_id'', PStr ian_id), (''source'', PStr ''OrthancAE''),
      (''sop_instance_uids'', PList [PStr ''1.2.3.4'', PStr ''1.2.3.5'']),
      (''availability_status'', PStr ''Available''),
      (''timestamp'', PStr ''2025-11-14T16:00:00Z''),
      (''patient_id'', PStr ''P12345''), (''accession_number'', PStr ''ACC-9876'')]"






section \<open>Sequences of ingestion calls\<close>

text \<open>
  The calls that can create SOPInstance rows, each with its arguments, and a run of such
  calls in order; every call hands its store to the next, whether it returned or raised.
\<close>

datatype call =
    ReceiveIan env pyval pyval pyval pyval
  | CreatePps env pyval pyval pyval pyval pyval pyval
  | ProcessPps env pyval
  | CreateUps env pyval pyval pyval pyval pyval
  | IngestIan env "(string \<times> pyval) list" "(string \<times> pyval) list option"
  | IngestMpps env "(string \<times> pyval) list" "(string \<times> pyval) list option"

fun run_call :: "call \<Rightarrow> store \<Rightarrow> store" where
  "run_call (ReceiveIan e ian_id source sop_uids availability_status) s =
     snd (receive_ian e ian_id source sop_uids availability_status s)"
| "run_call (CreatePps e pps_uid sps_uid rp_id actor status instance_uids) s =
     snd (create_pps e pps_uid sps_uid rp_id actor status instance_uids s)"
| "run_call (ProcessPps e pps_uid) s = snd (process_pps e pps_uid s)"
| "run_call (CreateUps e ups_id rp_id ups_status actor instance_uids) s =
     snd (create_ups e ups_id rp_id ups_status actor instance_uids s)"
| "run_call (IngestIan e payload request_headers) s = snd (ingest_ian e payload request_headers s)"
| "run_call (IngestMpps e payload request_headers) s = snd (ingest_mpps e payload request_headers s)"

definition run_calls :: "call list \<Rightarrow> store \<Rightarrow> store" where
  "run_calls cs s = foldl (\<lambda>st c. run_call c st) s cs"

definition sop_keys :: "store \<Rightarrow> pyval list" where
  "sop_keys s = map sop_sop_uid (tab_sop s)"

text \<open>The SOPInstance row a get-or-create inserts for a UID that is not in the store.\<close>

definition new_sop :: "env \<Rightarrow> string \<Rightarrow> pyval \<Rightarrow> pyval \<Rightarrow> pyval \<Rightarrow> sop_doc" where
  "new_sop e uid stored_at_aet patient_id accession_number =
     \<lparr> sop_sop_uid = PStr uid, sop_stored_at_aet = stored_at_aet, sop_patient_id = patient_id,
       sop_accession_number = accession_number, sop_created_at = PStr (now e) \<rparr>"

text \<open>
  How the SOPInstance table of one store continues that of an earlier one: the earlier
  rows stay, in place and unchanged, rows are only added behind them, and UIDs that were
  pairwise different stay so.
\<close>

definition sop_continues :: "store \<Rightarrow> store \<Rightarrow> bool" where
  "sop_continues s s' \<longleftrightarrow>
     (\<exists>new. tab_sop s' = tab_sop s @ new) \<and> (distinct (sop_keys s) \<longrightarrow> distinct (sop_keys s'))"

text \<open>
  Calls that sight the UID \<open>1.2.3.4\<close> of \<open>ian_payload\<close> again, with other metadata.
\<close>

definition second_sightings :: "call list" where
  "second_sightings =
     [ReceiveIan test_env (PStr ''IAN-8'') (PStr ''OTHER-AE'') (PStr ''1.2.3.4, 7.7'') (PStr ''Available''),
      IngestIan test_env [(''ian_id'', PStr ''IAN-9''), (''source'', PStr ''PACS-B''),
                          (''sop_uids'', PStr ''1.2.3.4''), (''patient_id'', PStr ''P999''),
                          (''accession_number'', PStr ''ACC-1'')] None,
      CreateUps test_env (PStr ''UPS-1'') PNone (PStr ''COMPLETED'') PNone (PStr ''1.2.3.4''),
      CreatePps test_env (PStr ''PPS-1'') PNone PNone PNone (PStr ''COMPLETED'') (PStr ''1.2.3.4,8.8''),
      ProcessPps test_env (PStr ''PPS-1'')]"

section \<open>Store operations: what each one changes\<close>

lemmas store_ops =
  insert_message_def insert_ian_def insert_sop_def insert_pps_def insert_ups_def save_sps_def
  enqueue_def log_error_def commit_def enqueue_process_ian_def enqueue_process_pps_def

lemma find_row_Some:
  "find_row P xs = Some (i, x) \<Longrightarrow> i < length xs \<and> xs ! i = x \<and> P x"
proof (induction xs arbitrary: i)
  case Nil
  then show ?case by simp
next
  case (Cons a xs)
  then show ?case by (auto split: if_splits option.splits)
qed

lemma find_row_None: "find_row P xs = None \<longleftrightarrow> filter P xs = []"
  by (induction xs) (auto split: option.splits)

text \<open>
  The two inline get-or-create steps are the utility without the metadata they do not
  pass.
\<close>

lemma ian_sop_step_eq:
  "ian_sop_step e source s uid = get_or_create_sopinstance e uid (py_or source (PStr [])) PNone PNone s"
  by (simp add: ian_sop_step_def get_or_create_sopinstance_def)

lemma bare_sop_step_eq:
  "bare_sop_step e s uid = get_or_create_sopinstance e uid PNone PNone PNone s"
  by (simp add: bare_sop_step_def get_or_create_sopinstance_def)

lemma goc_frame [simp]:
  "tab_message (get_or_create_sopinstance e uid a p c s) = tab_message s"
  "tab_ian (get_or_create_sopinstance e uid a p c s) = tab_ian s"
  "tab_pps (get_or_create_sopinstance e uid a p c s) = tab_pps s"
  "tab_sps (get_or_create_sopinstance e uid a p c s) = tab_sps s"
  "tab_ups (get_or_create_sopinstance e uid a p c s) = tab_ups s"
  "queue (get_or_create_sopinstance e uid a p c s) = queue s"
  "error_log (get_or_create_sopinstance e uid a p c s) = error_log s"
  "sps_saves (get_or_create_sopinstance e uid a p c s) = sps_saves s"
  by (simp_all add: get_or_create_sopinstance_def insert_sop_def sps_saves_def)

lemma foldl_frame:
  assumes "\<And>st u. f (step st u) = f st"
  shows "f (foldl step s us) = f s"
  using assms by (induction us arbitrary: s) simp_all

lemma goc_fold_frame [simp]:
  "tab_message (foldl (\<lambda>st u. get_or_create_sopinstance e u a p c st) s us) = tab_message s"
  "tab_ian (foldl (\<lambda>st u. get_or_create_sopinstance e u a p c st) s us) = tab_ian s"
  "tab_pps (foldl (\<lambda>st u. get_or_create_sopinstance e u a p c st) s us) = tab_pps s"
  "tab_sps (foldl (\<lambda>st u. get_or_create_sopinstance e u a p c st) s us) = tab_sps s"
  "tab_ups (foldl (\<lambda>st u. get_or_create_sopinstance e u a p c st) s us) = tab_ups s"
  "queue (foldl (\<lambda>st u. get_or_create_sopinstance e u a p c st) s us) = queue s"
  "error_log (foldl (\<lambda>st u. get_or_create_sopinstance e u a p c st) s us) = error_log s"
  "sps_saves (foldl (\<lambda>st u. get_or_create_sopinstance e u a p c st) s us) = sps_saves s"
  by (rule foldl_frame, simp)+

lemma ian_fold_eq:
  "foldl (ian_sop_step e source) s us
     = foldl (\<lambda>st u. get_or_create_sopinstance e u (py_or source (PStr [])) PNone PNone st) s us"
  by (induction us arbitrary: s) (simp_all add: ian_sop_step_eq)

lemma bare_fold_eq:
  "foldl (bare_sop_step e) s us
     = foldl (\<lambda>st u. get_or_create_sopinstance e u PNone PNone PNone st) s us"
  by (induction us arbitrary: s) (simp_all add: bare_sop_step_eq)

lemma check_signature_store:
  "check_signature e payload h s = (Inr u, s0) \<Longrightarrow> s0 = s"
  by (auto simp: check_signature_def verify_signature_def Let_def
           split: if_splits option.splits sum.splits pyval.splits prod.splits)

lemma check_signature_passes:
  "fst (check_signature e payload h s) = Inr () \<Longrightarrow> check_signature e payload h s = (Inr (), s)"
  using check_signature_store [of e payload h s "()" "snd (check_signature e payload h s)"]
  by (metis prod.collapse)

section \<open>The fallback parser on the sample message\<close>

lemma sample_nonempty: "SAMPLE_HL7 \<noteq> []" "SAMPLE_HL7_STD \<noteq> []"
  by (simp_all add: SAMPLE_HL7_def SAMPLE_HL7_STD_def sample_hl7_def)

lemma sample_msh:
  "build_seg_map SAMPLE_HL7 ''MSH'' =
     Some [[''MSH'', ''^'' @ [CHR 0x5C] @ ''&'', ''SendingApp'', ''SendingFac'', ''ReceivingApp'',
            ''ReceivingFac'', ''202511121130'', [], ''ORM^O01'', ''MSG00001'', ''P'', ''2.5.1'']]"
  by code_simp

lemma sample_orc:
  "build_seg_map SAMPLE_HL7 ''ORC'' =
     Some [[''ORC'', ''NW'', ''ORD448'', [], ''OC456'', ''CM'', [], [], [], ''202511121130'', [], [],
            ''1234^Clinician'']]"
  by code_simp

lemma sample_std_msh:
  "build_seg_map SAMPLE_HL7_STD ''MSH'' =
     Some [[''MSH'', ''^~'' @ [CHR 0x5C] @ ''&'', ''SendingApp'', ''SendingFac'', ''ReceivingApp'',
            ''ReceivingFac'', ''202511121130'', [], ''ORM^O01'', ''MSG00001'', ''P'', ''2.5.1'']]"
  by code_simp

lemma sample_std_orc:
  "build_seg_map SAMPLE_HL7_STD ''ORC'' =
     Some [[''ORC'', ''NW'', ''ORD448'', [], ''OC456'', ''CM'', [], [], [], ''202511121130'', [], [],
            ''1234^Clinician'']]"
  by code_simp

lemmas fallback_unfold =
  normalize_fallback_def fallback_correlation_def fallback_msh_def opt_py_def py_or_def
  combine_def field_at_def Let_def

lemma fallback_sample:
  "normalize_fallback g SAMPLE_HL7 =
     \<lparr> nm_message_id = PStr ''MSG00001'', nm_message_type = PStr ''ORM^O01'',
       nm_payload = PStr SAMPLE_HL7, nm_source_actor = PStr ''SendingApp|SendingFac'',
       nm_destination_actor = PStr ''ReceivingApp|ReceivingFac'',
       nm_correlation_id = PStr ''NW'' \<rparr>"
  by (simp add: fallback_unfold sample_msh sample_orc)

lemma fallback_sample_std:
  "normalize_fallback g SAMPLE_HL7_STD =
     \<lparr> nm_message_id = PStr ''MSG00001'', nm_message_type = PStr ''ORM^O01'',
       nm_payload = PStr SAMPLE_HL7_STD, nm_source_actor = PStr ''SendingApp|SendingFac'',
       nm_destination_actor = PStr ''ReceivingApp|ReceivingFac'',
       nm_correlation_id = PStr ''NW'' \<rparr>"
  by (simp add: fallback_unfold sample_std_msh sample_std_orc)

text \<open>
  C2. On the sample message (MSH-2 as the claim writes it, \<open>SAMPLE_HL7_STD\<close>, and as the
  test file writes it, \<open>SAMPLE_HL7\<close>), when hl7apy is not installed or its parser raises,
  \<open>normalize_hl7_v2\<close> returns message id \<open>MSG00001\<close>, message type \<open>ORM^O01\<close> and both
  actors, but the correlation id is \<open>NW\<close>: index 1 of the split ORC segment is ORC-1,
  the order control code, and not ORC-2 (\<open>ORD448\<close>), which the claim and the test expect.
\<close>

theorem normalize_sample_fallback:
  "normalize_hl7_v2 None g SAMPLE_HL7_STD =
     \<lparr> nm_message_id = PStr ''MSG00001'', nm_message_type = PStr ''ORM^O01'',
       nm_payload = PStr SAMPLE_HL7_STD, nm_source_actor = PStr ''SendingApp|SendingFac'',
       nm_destination_actor = PStr ''ReceivingApp|ReceivingFac'',
       nm_correlation_id = PStr ''NW'' \<rparr>
   \<and> nm_correlation_id (normalize_hl7_v2 (Some (\<lambda>raw. None)) g SAMPLE_HL7_STD) = PStr ''NW''
   \<and> nm_correlation_id (normalize_hl7_v2 None g SAMPLE_HL7) = PStr ''NW''
   \<and> nm_correlation_id (normalize_hl7_v2 (Some (\<lambda>raw. None)) g SAMPLE_HL7) = PStr ''NW''
   \<and> PStr ''NW'' \<noteq> PStr ''ORD448''"
  by (simp add: normalize_hl7_v2_def sample_nonempty fallback_sample fallback_sample_std)

text \<open>
  With hl7apy installed and parsing the message, the correlation id is whatever the
  library gives for \<open>ORC.orc_2\<close>, so the two branches of \<open>normalize_hl7_v2\<close> disagree on
  the sample.
\<close>

lemma normalize_sample_hl7apy:
  "fld ''ORC'' ''orc_2'' = Some ''ORD448'' \<Longrightarrow>
   nm_correlation_id (normalize_hl7_v2 (Some (\<lambda>raw. Some fld)) g SAMPLE_HL7_STD) = PStr ''ORD448''"
  by (simp add: normalize_hl7_v2_def normalize_hl7apy_def sample_nonempty opt_py_def Let_def)

section \<open>The fallback parser's field indices\<close>

lemma py_split_nonempty: "py_split sep s \<noteq> []"
  by (induction s) (auto split: list.splits)

lemma add_segment_lookup:
  "add_segment m seg name =
     (if seg \<noteq> [] \<and> hd (py_split CHR ''|'' seg) = name
      then Some ((case m name of None \<Rightarrow> [] | Some ps \<Rightarrow> ps) @ [py_split CHR ''|'' seg])
      else m name)"
  using py_split_nonempty [of "CHR ''|''" seg]
  by (cases "py_split CHR ''|'' seg") (auto simp: add_segment_def)

lemma foldl_add_segment:
  "foldl add_segment m ls name =
     (case filter (\<lambda>parts. hd parts = name)
             (map (py_split CHR ''|'') (filter (\<lambda>seg. seg \<noteq> []) ls)) of
        [] \<Rightarrow> m name
      | p # ps \<Rightarrow> Some ((case m name of None \<Rightarrow> [] | Some qs \<Rightarrow> qs) @ p # ps))"
proof (induction ls arbitrary: m)
  case Nil
  then show ?case by simp
next
  case (Cons l ls)
  let ?rest = "filter (\<lambda>parts. hd parts = name)
                 (map (py_split CHR ''|'') (filter (\<lambda>seg. seg \<noteq> []) ls))"
  have "foldl add_segment m (l # ls) name = foldl add_segment (add_segment m l) ls name"
    by simp
  also have "\<dots> = (case ?rest of
                      [] \<Rightarrow> add_segment m l name
                    | p # ps \<Rightarrow>
                        Some ((case add_segment m l name of None \<Rightarrow> [] | Some qs \<Rightarrow> qs) @ p # ps))"
    by (rule Cons.IH)
  finally have step: "foldl add_segment m (l # ls) name
      = (case ?rest of
           [] \<Rightarrow> add_segment m l name
         | p # ps \<Rightarrow> Some ((case add_segment m l name of None \<Rightarrow> [] | Some qs \<Rightarrow> qs) @ p # ps))" .
  show ?case
    unfolding step add_segment_lookup [of m l name]
    by (cases ?rest; cases "m name") auto
qed

lemma build_seg_map_segments:
  "build_seg_map raw name =
     (case filter (\<lambda>parts. hd parts = name) (split_segments raw) of
        [] \<Rightarrow> None
      | p # ps \<Rightarrow> Some (p # ps))"
  by (simp add: build_seg_map_def split_segments_def foldl_add_segment split: list.splits)

lemma split_segments_nonempty: "parts \<in> set (split_segments raw) \<Longrightarrow> parts \<noteq> []"
  by (auto simp: split_segments_def py_split_nonempty)

text \<open>
  The fallback parser in terms of the first MSH, ORC and PID segments of the message: no
  later segment of these names is read. The message type is field index 8 of the MSH
  segment and the message id index 9; the actors combine indices 2, 3 and 4, 5; the
  correlation id is index 1 of the ORC segment when that has more than one field, else
  index 3 of the PID segment when that has more than three fields, else nothing.
\<close>

lemma fallback_reads_first_segments:
  "normalize_fallback g raw =
     (let msh = first_segment ''MSH'' raw; orc = first_segment ''ORC'' raw;
          pid = first_segment ''PID'' raw
      in \<lparr> nm_message_id =
             py_or (opt_py (case msh of None \<Rightarrow> None | Some p \<Rightarrow> field_at p 9)) (PStr (g 0)),
           nm_message_type =
             py_or (opt_py (case msh of None \<Rightarrow> None | Some p \<Rightarrow> field_at p 8))
               (PStr ''UNKNOWN''),
           nm_payload = PStr raw,
           nm_source_actor =
             opt_py (case msh of None \<Rightarrow> None | Some p \<Rightarrow> combine (field_at p 2) (field_at p 3)),
           nm_destination_actor =
             opt_py (case msh of None \<Rightarrow> None | Some p \<Rightarrow> combine (field_at p 4) (field_at p 5)),
           nm_correlation_id =
             opt_py (case (case orc of None \<Rightarrow> None | Some p \<Rightarrow> field_at p 1) of
                       Some c \<Rightarrow> Some c
                     | None \<Rightarrow> (case pid of None \<Rightarrow> None | Some p \<Rightarrow> field_at p 3)) \<rparr>)"
proof -
  have ne: "filter (\<lambda>parts. hd parts = name) (split_segments raw) = p # ps \<Longrightarrow> p \<noteq> []"
    for name p ps
  proof -
    assume "filter (\<lambda>parts. hd parts = name) (split_segments raw) = p # ps"
    then have "p \<in> set (filter (\<lambda>parts. hd parts = name) (split_segments raw))" by simp
    then have "p \<in> set (split_segments raw)" by simp
    then show "p \<noteq> []" by (rule split_segments_nonempty)
  qed
  show ?thesis
    using ne
    by (auto simp: normalize_fallback_def fallback_msh_def fallback_correlation_def
          build_seg_map_segments first_segment_def field_at_def Let_def
          split: list.splits)
qed

lemma short_pid_segments:
  "build_seg_map SHORT_PID_HL7 ''ORC'' = None"
  "build_seg_map SHORT_PID_HL7 ''PID'' = Some [[''PID'', ''1'', ''PAT77'']]"
  by code_simp+

text \<open>
  The PID branch of the correlation id, for any segment map without a usable ORC: a first
  PID segment of more than three fields gives its index 3; a shorter one gives nothing,
  since the guard \<open>len(pid[0]) > 3\<close> stands in front of the expression that would read
  index 2.
\<close>

lemma fallback_correlation_pid:
  assumes "m ''ORC'' = None" and "m ''PID'' = Some (p0 # ps)"
  shows "fallback_correlation m = (if length p0 > 3 then Some (p0 ! 3) else None)"
  using assms by (auto simp: fallback_correlation_def)

text \<open>
  C8. A message whose only PID segment is \<open>PID|1|PAT77\<close> (three fields, so "too short" for
  index 3) and which has no ORC segment gets no correlation id: the fallback to index 2,
  \<open>PAT77\<close>, that the claim describes and the source writes (\<open>else pid[0][2]\<close>) is never
  reached.
\<close>

theorem short_pid_no_index2_fallback:
  "nm_correlation_id (normalize_hl7_v2 None g SHORT_PID_HL7) = PNone
   \<and> build_seg_map SHORT_PID_HL7 ''PID'' = Some [[''PID'', ''1'', ''PAT77'']]
   \<and> build_seg_map SHORT_PID_HL7 ''ORC'' = None"
proof -
  have "SHORT_PID_HL7 \<noteq> []" by (simp add: SHORT_PID_HL7_def)
  then show ?thesis
    by (simp add: normalize_hl7_v2_def normalize_fallback_def Let_def opt_py_def short_pid_segments
          fallback_correlation_pid [OF short_pid_segments])
qed

section \<open>Signature verification\<close>

lemma startswith_split: "py_startswith s p \<Longrightarrow> s = p @ drop (length p) s"
  by (metis append_take_drop_id py_startswith_def)

lemma signature_of_prefixed:
  "signature_of (''sha256='' @ d) = Inr d"
  by (simp add: signature_of_def py_startswith_def)

lemma signature_of_startswith:
  assumes "py_startswith sh ''sha256=''"
  shows "signature_of sh = Inr (drop (length ''sha256='') sh)"
  using startswith_split [OF assms] signature_of_prefixed by metis

lemma signature_of_raw:
  "\<not> py_startswith sh ''sha256='' \<Longrightarrow> signature_of sh = Inr sh"
  by (simp add: signature_of_def)

lemma hex_char_ascii: "c \<in> set ''0123456789abcdef'' \<Longrightarrow> \<not> digit7 c"
  by auto

lemma hexdigest_chars: "is_hexdigest d \<Longrightarrow> c \<in> set d \<Longrightarrow> c \<in> set ''0123456789abcdef''"
  unfolding is_hexdigest_def list_all_iff by blast

lemma hexdigest_ascii: "is_hexdigest d \<Longrightarrow> is_ascii d"
  unfolding is_ascii_def list_all_iff using hexdigest_chars hex_char_ascii by blast

lemma hexdigest_not_prefixed:
  assumes h: "is_hexdigest d"
  shows "\<not> py_startswith d ''sha256=''"
proof
  assume p: "py_startswith d ''sha256=''"
  have "CHR ''s'' \<in> set (''sha256='' @ drop (length ''sha256='') d)" by simp
  then have "CHR ''s'' \<in> set d" using startswith_split [OF p] by metis
  then have "CHR ''s'' \<in> set ''0123456789abcdef''" using hexdigest_chars [OF h] by blast
  then show False by simp
qed

lemma hexdigest_no_prefix:
  assumes h: "is_hexdigest d"
  shows "d \<noteq> ''sha256='' @ x"
proof
  assume "d = ''sha256='' @ x"
  then have "CHR ''s'' \<in> set d" by simp
  then have "CHR ''s'' \<in> set ''0123456789abcdef''" using hexdigest_chars [OF h] by blast
  then show False by simp
qed

lemma hexdigest_nonempty: "is_hexdigest d \<Longrightarrow> d \<noteq> []"
  unfolding is_hexdigest_def by (cases d) simp_all

lemma verify_no_secret:
  "dwf_api_secret e = None \<or> dwf_api_secret e = Some [] \<Longrightarrow>
   verify_signature e headers body s = (Inr True, s)"
  by (auto simp: verify_signature_def)

lemma verify_configured:
  assumes sec: "dwf_api_secret e = Some secret" "secret \<noteq> []"
      and hex: "is_hexdigest (hmac_sha256_hexdigest e secret body)"
  shows "(fst (verify_signature e (Some h) body s) = Inr True) =
         (py_or (dict_get h ''X-Signature'') (dict_get h ''X-Hub-Signature'')
             = PStr (''sha256='' @ hmac_sha256_hexdigest e secret body)
          \<or> py_or (dict_get h ''X-Signature'') (dict_get h ''X-Hub-Signature'')
             = PStr (hmac_sha256_hexdigest e secret body))"
proof -
  let ?d = "hmac_sha256_hexdigest e secret body"
  let ?sel = "py_or (dict_get h ''X-Signature'') (dict_get h ''X-Hub-Signature'')"
  note fa = hexdigest_ascii [OF hex] and np = hexdigest_not_prefixed [OF hex]
    and ne = hexdigest_nonempty [OF hex]
  show ?thesis
  proof (cases ?sel)
    case (PStr sh)
    show ?thesis
    proof (cases "sh = []")
      case True
      with PStr sec ne show ?thesis by (auto simp: verify_signature_def Let_def)
    next
      case False
      show ?thesis
      proof (cases "py_startswith sh ''sha256=''")
        case True
        then have so: "signature_of sh = Inr (drop (length ''sha256='') sh)"
          by (rule signature_of_startswith)
        have sh: "sh = ''sha256='' @ drop (length ''sha256='') sh"
          using True by (rule startswith_split)
        have "(sh = ''sha256='' @ ?d) = (drop (length ''sha256='') sh = ?d)"
          using sh by (metis same_append_eq)
        moreover have "sh \<noteq> ?d" using True np by auto
        ultimately show ?thesis using PStr sec False so fa
          by (auto simp: verify_signature_def Let_def compare_digest_def split: if_splits)
      next
        case nopre: False
        then have so: "signature_of sh = Inr sh" by (rule signature_of_raw)
        have "sh \<noteq> ''sha256='' @ ?d" using nopre by (auto simp: py_startswith_def)
        then show ?thesis using PStr sec False so fa
          by (auto simp: verify_signature_def Let_def compare_digest_def split: if_splits)
      qed
    qed
  qed (use sec in \<open>auto simp: verify_signature_def Let_def\<close>)
qed


lemma verify_missing_header:
  assumes "dwf_api_secret e = Some secret" "secret \<noteq> []"
      and "dict_get h ''X-Signature'' = PNone" "dict_get h ''X-Hub-Signature'' = PNone"
  shows "fst (verify_signature e (Some h) body s) = Inr False"
  using assms by (simp add: verify_signature_def py_or_def)

lemma verify_not_true_is_false:
  assumes sec: "dwf_api_secret e = Some secret" "secret \<noteq> []"
      and hex: "is_hexdigest (hmac_sha256_hexdigest e secret body)"
      and sel: "py_or (dict_get h ''X-Signature'') (dict_get h ''X-Hub-Signature'') = PStr sh"
      and asc: "is_ascii sh"
  shows "fst (verify_signature e (Some h) body s) = Inr True
         \<or> fst (verify_signature e (Some h) body s) = Inr False"
proof -
  have a: "is_ascii (hmac_sha256_hexdigest e secret body)" using hex by (rule hexdigest_ascii)
  have b: "is_ascii (drop n sh)" for n
    using asc unfolding is_ascii_def list_all_iff by (meson in_set_dropD)
  show ?thesis
  proof (cases "py_startswith sh ''sha256=''")
    case True
    then show ?thesis using sec sel a b signature_of_startswith [OF True]
      by (auto simp: verify_signature_def Let_def compare_digest_def)
  next
    case False
    then show ?thesis using sec sel a asc signature_of_raw [OF False]
      by (auto simp: verify_signature_def Let_def compare_digest_def)
  qed
qed

lemma ascii_append: "is_ascii (a @ b) = (is_ascii a \<and> is_ascii b)"
  by (simp add: is_ascii_def)

lemma single_byte_change_differs:
  assumes "single_byte_change b b'"
  shows "b \<noteq> b'"
proof
  assume "b = b'"
  then have "filter (\<lambda>(x, y). x \<noteq> y) (zip b b') = []"
    by (auto simp: filter_empty_conv in_set_zip)
  with assms show False by (simp add: single_byte_change_def)
qed

lemma verify_is_compare_digest:
  assumes sec: "dwf_api_secret e = Some secret" "secret \<noteq> []"
      and sel: "py_or (dict_get h ''X-Signature'') (dict_get h ''X-Hub-Signature'') = PStr sh"
      and ne: "sh \<noteq> []"
  shows "fst (verify_signature e (Some h) body s)
           = compare_digest (hmac_sha256_hexdigest e secret body)
               (if py_startswith sh ''sha256='' then drop (length ''sha256='') sh else sh)"
proof (cases "py_startswith sh ''sha256=''")
  case True
  then show ?thesis using sec sel ne signature_of_startswith [OF True]
    by (auto simp: verify_signature_def Let_def split: sum.splits)
next
  case False
  then show ?thesis using sec sel ne signature_of_raw [OF False]
    by (auto simp: verify_signature_def Let_def split: sum.splits)
qed

lemma verify_changed_body:
  assumes sec: "dwf_api_secret e = Some secret" "secret \<noteq> []"
      and hex: "is_hexdigest (hmac_sha256_hexdigest e secret body)"
      and hex': "is_hexdigest (hmac_sha256_hexdigest e secret body')"
      and ok: "fst (verify_signature e (Some h) body s) = Inr True"
      and diff: "hmac_sha256_hexdigest e secret body' \<noteq> hmac_sha256_hexdigest e secret body"
  shows "fst (verify_signature e (Some h) body' s) = Inr False"
proof -
  let ?sel = "py_or (dict_get h ''X-Signature'') (dict_get h ''X-Hub-Signature'')"
  let ?d = "hmac_sha256_hexdigest e secret body"
  let ?d' = "hmac_sha256_hexdigest e secret body'"
  from sec hex ok have sel: "?sel = PStr (''sha256='' @ ?d) \<or> ?sel = PStr ?d"
    using verify_configured [of e secret body h s] by blast
  have ad: "is_ascii ?d" using hex by (rule hexdigest_ascii)
  have "is_ascii ''sha256=''" by (simp add: is_ascii_def)
  then have ap: "is_ascii (''sha256='' @ ?d)" using ad ascii_append by blast
  obtain sh where sh: "?sel = PStr sh" and asc: "is_ascii sh"
    using sel ad ap by blast
  from sel diff have "\<not> (?sel = PStr (''sha256='' @ ?d') \<or> ?sel = PStr ?d')"
    using hexdigest_no_prefix [OF hex, of ?d'] hexdigest_no_prefix [OF hex', of ?d] by auto
  then have "fst (verify_signature e (Some h) body' s) \<noteq> Inr True"
    using sec hex' verify_configured [of e secret body' h s] by blast
  moreover have "fst (verify_signature e (Some h) body' s) = Inr True
         \<or> fst (verify_signature e (Some h) body' s) = Inr False"
    using sec hex' sh asc verify_not_true_is_false [of e secret body' h sh s] by blast
  ultimately show ?thesis by blast
qed

text \<open>
  C3 (amended). With no secret configured (absent or empty) \<open>verify_signature\<close> returns
  true and leaves the store alone, for every headers value including \<open>None\<close>. With a
  secret configured, whose digest of the body is a SHA-256 hex digest, it returns true
  exactly when the header it selects (\<open>X-Signature\<close> when that is present and non-empty,
  \<open>X-Hub-Signature\<close> otherwise) holds the digest, as \<open>sha256=<hex>\<close> or as raw hex.
  The comparison is the constant-time one of the library: the verdict is what
  \<open>hmac.compare_digest\<close> answers on the digest and the signature text of the selected
  header. When neither header is present the verdict is false. Changing a single byte
  of the body of a request that verifies makes verification fail, HMAC-SHA256 being
  collision-free on the two bodies; so does any other change of the body that changes
  the digest.
\<close>

theorem verify_signature_selected_header:
  "(dwf_api_secret e = None \<or> dwf_api_secret e = Some [] \<longrightarrow>
      verify_signature e headers body s = (Inr True, s))
   \<and> (dwf_api_secret e = Some secret \<and> secret \<noteq> []
        \<and> is_hexdigest (hmac_sha256_hexdigest e secret body) \<longrightarrow>
      (fst (verify_signature e (Some h) body s) = Inr True) =
      (py_or (dict_get h ''X-Signature'') (dict_get h ''X-Hub-Signature'')
         = PStr (''sha256='' @ hmac_sha256_hexdigest e secret body)
       \<or> py_or (dict_get h ''X-Signature'') (dict_get h ''X-Hub-Signature'')
         = PStr (hmac_sha256_hexdigest e secret body)))
   \<and> (dwf_api_secret e = Some secret \<and> secret \<noteq> []
        \<and> py_or (dict_get h ''X-Signature'') (dict_get h ''X-Hub-Signature'') = PStr sh
        \<and> sh \<noteq> [] \<longrightarrow>
      fst (verify_signature e (Some h) body s)
        = compare_digest (hmac_sha256_hexdigest e secret body)
            (if py_startswith sh ''sha256='' then drop (length ''sha256='') sh else sh))
   \<and> (dwf_api_secret e = Some secret \<and> secret \<noteq> []
        \<and> dict_get h ''X-Signature'' = PNone \<and> dict_get h ''X-Hub-Signature'' = PNone \<longrightarrow>
      fst (verify_signature e (Some h) body s) = Inr False)
   \<and> (dwf_api_secret e = Some secret \<and> secret \<noteq> []
        \<and> is_hexdigest (hmac_sha256_hexdigest e secret body)
        \<and> is_hexdigest (hmac_sha256_hexdigest e secret body')
        \<and> fst (verify_signature e (Some h) body s) = Inr True
        \<and> single_byte_change body body'
        \<and> collision_free e secret body body' \<longrightarrow>
      fst (verify_signature e (Some h) body' s) = Inr False)
   \<and> (dwf_api_secret e = Some secret \<and> secret \<noteq> []
        \<and> is_hexdigest (hmac_sha256_hexdigest e secret body)
        \<and> is_hexdigest (hmac_sha256_hexdigest e secret body')
        \<and> fst (verify_signature e (Some h) body s) = Inr True
        \<and> hmac_sha256_hexdigest e secret body' \<noteq> hmac_sha256_hexdigest e secret body \<longrightarrow>
      fst (verify_signature e (Some h) body' s) = Inr False)"
proof (intro conjI impI)
  assume "dwf_api_secret e = None \<or> dwf_api_secret e = Some []"
  then show "verify_signature e headers body s = (Inr True, s)" by (rule verify_no_secret)
next
  assume "dwf_api_secret e = Some secret \<and> secret \<noteq> []
          \<and> is_hexdigest (hmac_sha256_hexdigest e secret body)"
  then show "(fst (verify_signature e (Some h) body s) = Inr True) =
      (py_or (dict_get h ''X-Signature'') (dict_get h ''X-Hub-Signature'')
         = PStr (''sha256='' @ hmac_sha256_hexdigest e secret body)
       \<or> py_or (dict_get h ''X-Signature'') (dict_get h ''X-Hub-Signature'')
         = PStr (hmac_sha256_hexdigest e secret body))"
    using verify_configured by blast
next
  assume "dwf_api_secret e = Some secret \<and> secret \<noteq> []
        \<and> py_or (dict_get h ''X-Signature'') (dict_get h ''X-Hub-Signature'') = PStr sh
        \<and> sh \<noteq> []"
  then show "fst (verify_signature e (Some h) body s)
        = compare_digest (hmac_sha256_hexdigest e secret body)
            (if py_startswith sh ''sha256='' then drop (length ''sha256='') sh else sh)"
    using verify_is_compare_digest [of e secret h sh body s] by blast
next
  assume "dwf_api_secret e = Some secret \<and> secret \<noteq> []
        \<and> dict_get h ''X-Signature'' = PNone \<and> dict_get h ''X-Hub-Signature'' = PNone"
  then show "fst (verify_signature e (Some h) body s) = Inr False"
    using verify_missing_header by blast
next
  assume a: "dwf_api_secret e = Some secret \<and> secret \<noteq> []
        \<and> is_hexdigest (hmac_sha256_hexdigest e secret body)
        \<and> is_hexdigest (hmac_sha256_hexdigest e secret body')
        \<and> fst (verify_signature e (Some h) body s) = Inr True
        \<and> single_byte_change body body'
        \<and> collision_free e secret body body'"
  then have "body \<noteq> body'" using single_byte_change_differs by blast
  with a have "hmac_sha256_hexdigest e secret body' \<noteq> hmac_sha256_hexdigest e secret body"
    unfolding collision_free_def by metis
  with a show "fst (verify_signature e (Some h) body' s) = Inr False"
    using verify_changed_body [of e secret body body' h s] by blast
next
  assume "dwf_api_secret e = Some secret \<and> secret \<noteq> []
        \<and> is_hexdigest (hmac_sha256_hexdigest e secret body)
        \<and> is_hexdigest (hmac_sha256_hexdigest e secret body')
        \<and> fst (verify_signature e (Some h) body s) = Inr True
        \<and> hmac_sha256_hexdigest e secret body' \<noteq> hmac_sha256_hexdigest e secret body"
  then show "fst (verify_signature e (Some h) body' s) = Inr False"
    using verify_changed_body [of e secret body body' h s] by blast
qed

lemma toy_hex: "is_hexdigest (toy_digest ''s3cret'' ''body'')"
  by code_simp

lemma toy_hex': "is_hexdigest (toy_digest ''s3cret'' ''bodz'')"
  by code_simp

lemma toy_diff: "toy_digest ''s3cret'' ''bodz'' \<noteq> toy_digest ''s3cret'' ''body''"
  by code_simp

lemma body_bodz: "single_byte_change ''body'' ''bodz''"
  by code_simp

text \<open>
  The theorem at concrete inputs: no secret and no headers; a request signed in
  \<open>X-Signature\<close>, whose verdict is that of \<open>compare_digest\<close> on the digest and the hex
  text of the header; a request without signature headers; the signed request with the
  last byte of its body changed, the digests of the two bodies being different.
\<close>

theorem verify_signature_selected_header_witness:
  "verify_signature (test_env\<lparr>dwf_api_secret := None\<rparr>) None ''body'' empty_store
     = (Inr True, empty_store)
   \<and> is_hexdigest (toy_digest ''s3cret'' ''body'')
   \<and> fst (verify_signature test_env
            (Some [(''X-Signature'', PStr (''sha256='' @ toy_digest ''s3cret'' ''body''))])
            ''body'' empty_store) = Inr True
   \<and> fst (verify_signature test_env
            (Some [(''X-Signature'', PStr (''sha256='' @ toy_digest ''s3cret'' ''body''))])
            ''body'' empty_store)
       = compare_digest (toy_digest ''s3cret'' ''body'') (toy_digest ''s3cret'' ''body'')
   \<and> fst (verify_signature test_env (Some [(''Content-Type'', PStr ''application/json'')])
            ''body'' empty_store) = Inr False
   \<and> single_byte_change ''body'' ''bodz''
   \<and> collision_free test_env ''s3cret'' ''body'' ''bodz''
   \<and> toy_digest ''s3cret'' ''bodz'' \<noteq> toy_digest ''s3cret'' ''body''
   \<and> fst (verify_signature test_env
            (Some [(''X-Signature'', PStr (''sha256='' @ toy_digest ''s3cret'' ''body''))])
            ''bodz'' empty_store) = Inr False"
proof -
  let ?d = "toy_digest ''s3cret'' ''body''"
  let ?h = "[(''X-Signature'', PStr (''sha256='' @ ?d))]"
  let ?c = "[(''Content-Type'', PStr ''application/json'')]"
  have sec: "dwf_api_secret test_env = Some ''s3cret''" "''s3cret'' \<noteq> []"
    and mac: "hmac_sha256_hexdigest test_env = toy_digest"
    by (simp_all add: test_env_def)
  have sel: "py_or (dict_get ?h ''X-Signature'') (dict_get ?h ''X-Hub-Signature'')
               = PStr (''sha256='' @ ?d)"
    by (simp add: py_or_def dict_get_def dict_get_default_def)
  have pre: "py_startswith (''sha256='' @ ?d) ''sha256=''"
       "drop (length ''sha256='') (''sha256='' @ ?d) = ?d" "''sha256='' @ ?d \<noteq> []"
    by (simp_all add: py_startswith_def)
  have none: "dict_get ?c ''X-Signature'' = PNone" "dict_get ?c ''X-Hub-Signature'' = PNone"
    by (simp_all add: dict_get_def dict_get_default_def)
  have nosec: "dwf_api_secret (test_env\<lparr>dwf_api_secret := None\<rparr>) = None" by simp
  have cf: "collision_free test_env ''s3cret'' ''body'' ''bodz''"
    using toy_diff by (simp add: collision_free_def mac)
  note t1 = verify_signature_selected_header
      [of "test_env\<lparr>dwf_api_secret := None\<rparr>" None "''body''" empty_store "''x''" "[]" "[]"
          "''body''"]
  note t2 = verify_signature_selected_header
      [of test_env None "''body''" empty_store "''s3cret''" ?h "''sha256='' @ ?d" "''bodz''"]
  note t3 = verify_signature_selected_header
      [of test_env None "''body''" empty_store "''s3cret''" ?c "[]" "''bodz''"]
  have a: "verify_signature (test_env\<lparr>dwf_api_secret := None\<rparr>) None ''body'' empty_store
     = (Inr True, empty_store)" using t1 nosec by blast
  have b: "fst (verify_signature test_env (Some ?h) ''body'' empty_store) = Inr True"
    using t2 [THEN conjunct2, THEN conjunct1] sec mac sel toy_hex by simp
  have b': "fst (verify_signature test_env (Some ?h) ''body'' empty_store)
              = compare_digest ?d ?d"
    using t2 [THEN conjunct2, THEN conjunct2, THEN conjunct1] sec mac sel pre by simp
  have c: "fst (verify_signature test_env (Some ?c) ''body'' empty_store) = Inr False"
    using t3 [THEN conjunct2, THEN conjunct2, THEN conjunct2, THEN conjunct1] sec none by blast
  have d: "fst (verify_signature test_env (Some ?h) ''bodz'' empty_store) = Inr False"
    using t2 [THEN conjunct2, THEN conjunct2, THEN conjunct2, THEN conjunct2, THEN conjunct1]
      sec mac b toy_hex toy_hex' body_bodz cf by simp
  show ?thesis using a b b' c d toy_hex toy_diff body_bodz cf by blast
qed

text \<open>
  C3 as stated fails when both headers are present: a wrong \<open>X-Signature\<close> is selected
  although \<open>X-Hub-Signature\<close> holds the digest of the body, and the request is refused.
\<close>

theorem verify_signature_precedence_counterexample:
  "dict_get [(''X-Signature'', PStr ''00''),
             (''X-Hub-Signature'', PStr (''sha256='' @ hmac_sha256_hexdigest test_env ''s3cret'' ''body''))]
      ''X-Hub-Signature'' = PStr (''sha256='' @ hmac_sha256_hexdigest test_env ''s3cret'' ''body'')
   \<and> dwf_api_secret test_env = Some ''s3cret''
   \<and> fst (verify_signature test_env
        (Some [(''X-Signature'', PStr ''00''),
               (''X-Hub-Signature'', PStr (''sha256='' @ hmac_sha256_hexdigest test_env ''s3cret'' ''body''))])
        ''body'' empty_store) = Inr False"
  by code_simp

section \<open>Unified Procedure Step: temporal fields\<close>

lemma get_all_ups_insert_ups:
  "get_all_ups k (insert_ups d s) = get_all_ups k s @ (if ups_ups_id d = k then [d] else [])"
  by (simp add: get_all_ups_def insert_ups_def)

lemma get_all_ups_insert_sop [simp]: "get_all_ups k (insert_sop d s) = get_all_ups k s"
  by (simp add: get_all_ups_def insert_sop_def)

lemma get_all_ups_bare_step [simp]: "get_all_ups k (bare_sop_step e s uid) = get_all_ups k s"
  by (simp add: bare_sop_step_def)

lemma get_all_ups_bare_fold [simp]:
  "get_all_ups k (foldl (bare_sop_step e) s uids) = get_all_ups k s"
  by (induction uids arbitrary: s) simp_all

text \<open>
  C7. When \<open>create_ups\<close> creates a record (the identifier is given and not yet in the
  store), the record it leaves in the store, whether or not the later fan-out raises, has
  \<open>start_time\<close> set, to the current time, exactly when \<open>ups_status\<close> is \<open>IN-PROGRESS\<close>,
  and \<open>end_time\<close> set exactly when \<open>ups_status\<close> is \<open>COMPLETED\<close>, \<open>FAILED\<close> or
  \<open>CANCELLED\<close>; for every other status both are \<open>None\<close>.
\<close>

theorem create_ups_times:
  assumes "truthy ups_id" and "get_all_ups ups_id s = []"
  shows "\<exists>d. get_all_ups ups_id (snd (create_ups e ups_id rp_id ups_status actor instance_uids s)) = [d]
           \<and> ups_ups_status d = ups_status
           \<and> ups_start_time d = (if ups_status = PStr ''IN-PROGRESS'' then PStr (now e) else PNone)
           \<and> ups_end_time d =
               (if ups_status = PStr ''COMPLETED'' \<or> ups_status = PStr ''FAILED''
                   \<or> ups_status = PStr ''CANCELLED''
                then PStr (now e) else PNone)
           \<and> (ups_start_time d \<noteq> PNone) = (ups_status = PStr ''IN-PROGRESS'')
           \<and> (ups_end_time d \<noteq> PNone) =
               (ups_status = PStr ''COMPLETED'' \<or> ups_status = PStr ''FAILED''
                  \<or> ups_status = PStr ''CANCELLED'')"
  using assms
  by (auto simp: create_ups_def Let_def get_all_ups_insert_ups split: sum.splits)

theorem create_ups_times_witness:
  "truthy (PStr ''UPS-1'') \<and> get_all_ups (PStr ''UPS-1'') empty_store = []
   \<and> (\<exists>d. get_all_ups (PStr ''UPS-1'')
             (snd (create_ups test_env (PStr ''UPS-1'') PNone (PStr ''IN-PROGRESS'') PNone (PStr [])
                     empty_store)) = [d]
          \<and> ups_start_time d = PStr ''2025-11-14 16:00:00'' \<and> ups_end_time d = PNone)"
  using create_ups_times [of "PStr ''UPS-1''" empty_store test_env PNone "PStr ''IN-PROGRESS''" PNone "PStr []"]
  by (auto simp add: get_all_ups_def empty_store_def test_env_def)

section \<open>Requests without headers are not authenticated\<close>

lemma check_signature_no_headers:
  "\<not> headers_truthy h \<Longrightarrow> check_signature e payload h s = (Inr (), s)"
  by (simp add: check_signature_def)

lemma split_uid_value_not_forbidden: "split_uid_value v \<noteq> Inl (Forbidden m)"
  by (cases v) (simp_all add: split_uid_value_def no_attribute_def)

lemma sop_steps_ignore_secret:
  "ian_sop_step (e\<lparr>dwf_api_secret := x, hmac_sha256_hexdigest := f\<rparr>) = ian_sop_step e"
  "bare_sop_step (e\<lparr>dwf_api_secret := x, hmac_sha256_hexdigest := f\<rparr>) = bare_sop_step e"
  "get_or_create_sopinstance (e\<lparr>dwf_api_secret := x, hmac_sha256_hexdigest := f\<rparr>)
     = get_or_create_sopinstance e"
  by (intro ext, simp add: ian_sop_step_def bare_sop_step_def get_or_create_sopinstance_def)+

lemma ingest_ian_no_headers:
  assumes "\<not> headers_truthy h"
  shows "fst (ingest_ian e payload h s) \<noteq> Inl (Forbidden m)"
    and "ingest_ian (e\<lparr>dwf_api_secret := x, hmac_sha256_hexdigest := f\<rparr>) payload h s
           = ingest_ian e payload h s"
  using assms
  by (simp_all add: ingest_ian_def check_signature_no_headers Let_def sop_steps_ignore_secret)

lemma ingest_mpps_no_headers:
  assumes "\<not> headers_truthy h"
  shows "fst (ingest_mpps e payload h s) \<noteq> Inl (Forbidden m)"
    and "ingest_mpps (e\<lparr>dwf_api_secret := x, hmac_sha256_hexdigest := f\<rparr>) payload h s
           = ingest_mpps e payload h s"
  using assms
  by (simp_all add: ingest_mpps_def check_signature_no_headers Let_def sop_steps_ignore_secret)

lemma receive_ian_no_auth:
  "fst (receive_ian e ian_id source sop_uids availability_status s) \<noteq> Inl (Forbidden m)"
  "receive_ian (e\<lparr>dwf_api_secret := x, hmac_sha256_hexdigest := f\<rparr>) ian_id source sop_uids
       availability_status s
     = receive_ian e ian_id source sop_uids availability_status s"
  using split_uid_value_not_forbidden [of sop_uids m]
  by (auto simp: receive_ian_def Let_def sop_steps_ignore_secret split: sum.splits)

lemma create_pps_no_auth:
  "fst (create_pps e pps_uid sps_uid rp_id actor status instance_uids s) \<noteq> Inl (Forbidden m)"
  "create_pps (e\<lparr>dwf_api_secret := x, hmac_sha256_hexdigest := f\<rparr>) pps_uid sps_uid rp_id actor
       status instance_uids s
     = create_pps e pps_uid sps_uid rp_id actor status instance_uids s"
  by (simp_all add: create_pps_def Let_def)

lemma create_ups_no_auth:
  "fst (create_ups e ups_id rp_id ups_status actor instance_uids s) \<noteq> Inl (Forbidden m)"
  "create_ups (e\<lparr>dwf_api_secret := x, hmac_sha256_hexdigest := f\<rparr>) ups_id rp_id ups_status actor
       instance_uids s
     = create_ups e ups_id rp_id ups_status actor instance_uids s"
  using split_uid_value_not_forbidden [of instance_uids m]
  by (auto simp: create_ups_def Let_def sop_steps_ignore_secret split: sum.splits)

text \<open>
  C10. Whatever secret is configured, \<open>ingest_ian\<close> and \<open>ingest_mpps\<close> called with no
  headers (\<open>None\<close>) or with an empty dict never raise \<open>Forbidden\<close>, and what they return
  and write does not depend on the secret or on the digest function: the verifier is not
  run. The endpoints \<open>receive_ian\<close>, \<open>create_pps\<close> and \<open>create_ups\<close> take no headers at
  all; they never raise \<open>Forbidden\<close> and likewise do not depend on the secret.
\<close>

theorem no_headers_no_authentication:
  "fst (ingest_ian e payload None s) \<noteq> Inl (Forbidden m)
   \<and> fst (ingest_ian e payload (Some []) s) \<noteq> Inl (Forbidden m)
   \<and> fst (ingest_mpps e payload None s) \<noteq> Inl (Forbidden m)
   \<and> fst (ingest_mpps e payload (Some []) s) \<noteq> Inl (Forbidden m)
   \<and> ingest_ian (e\<lparr>dwf_api_secret := x, hmac_sha256_hexdigest := f\<rparr>) payload None s
        = ingest_ian e payload None s
   \<and> ingest_ian (e\<lparr>dwf_api_secret := x, hmac_sha256_hexdigest := f\<rparr>) payload (Some []) s
        = ingest_ian e payload (Some []) s
   \<and> ingest_mpps (e\<lparr>dwf_api_secret := x, hmac_sha256_hexdigest := f\<rparr>) payload None s
        = ingest_mpps e payload None s
   \<and> ingest_mpps (e\<lparr>dwf_api_secret := x, hmac_sha256_hexdigest := f\<rparr>) payload (Some []) s
        = ingest_mpps e payload (Some []) s
   \<and> fst (receive_ian e ian_id source sop_uids availability_status s) \<noteq> Inl (Forbidden m)
   \<and> receive_ian (e\<lparr>dwf_api_secret := x, hmac_sha256_hexdigest := f\<rparr>) ian_id source sop_uids
          availability_status s
        = receive_ian e ian_id source sop_uids availability_status s
   \<and> fst (create_pps e pps_uid sps_uid rp_id actor status instance_uids s) \<noteq> Inl (Forbidden m)
   \<and> create_pps (e\<lparr>dwf_api_secret := x, hmac_sha256_hexdigest := f\<rparr>) pps_uid sps_uid rp_id actor
          status instance_uids s
        = create_pps e pps_uid sps_uid rp_id actor status instance_uids s
   \<and> fst (create_ups e ups_id rp_id ups_status actor instance_uids s) \<noteq> Inl (Forbidden m)
   \<and> create_ups (e\<lparr>dwf_api_secret := x, hmac_sha256_hexdigest := f\<rparr>) ups_id rp_id ups_status actor
          instance_uids s
        = create_ups e ups_id rp_id ups_status actor instance_uids s"
proof -
  have n: "\<not> headers_truthy None" "\<not> headers_truthy (Some [])"
    by (simp_all add: headers_truthy_def)
  show ?thesis
    by (intro conjI ingest_ian_no_headers ingest_mpps_no_headers n receive_ian_no_auth
          create_pps_no_auth create_ups_no_auth)
qed

text \<open>
  The same IAN payload under a configured secret: with a wrong signature header it is
  refused as forbidden and nothing is stored; with no headers it is accepted and stored.
\<close>

theorem no_headers_no_authentication_witness:
  "dwf_api_secret test_env = Some ''s3cret''
   \<and> ingest_ian test_env [(''ian_id'', PStr ''IAN-1'')] (Some [(''X-Signature'', PStr ''00'')])
        empty_store
       = (Inl (Forbidden ''Forbidden: invalid signature''),
          log_error (Text [PStr ''Invalid signature for IAN/MPPS request'']) ''frappe_dwf.signature''
            empty_store)
   \<and> fst (ingest_ian test_env [(''ian_id'', PStr ''IAN-1'')] None empty_store)
       = Inr [(''status'', PStr ''created''), (''ian_id'', PStr ''IAN-1'')]
   \<and> fst (ingest_ian test_env [(''ian_id'', PStr ''IAN-1'')] None empty_store)
       \<noteq> Inl (Forbidden ''Forbidden: invalid signature'')"
proof -
  have a: "dwf_api_secret test_env = Some ''s3cret''" by (simp add: test_env_def)
  have b: "ingest_ian test_env [(''ian_id'', PStr ''IAN-1'')] (Some [(''X-Signature'', PStr ''00'')])
        empty_store
       = (Inl (Forbidden ''Forbidden: invalid signature''),
          log_error (Text [PStr ''Invalid signature for IAN/MPPS request'']) ''frappe_dwf.signature''
            empty_store)"
    by code_simp
  have c: "fst (ingest_ian test_env [(''ian_id'', PStr ''IAN-1'')] None empty_store)
       = Inr [(''status'', PStr ''created''), (''ian_id'', PStr ''IAN-1'')]"
    by code_simp
  show ?thesis
    using a b c no_headers_no_authentication [of test_env "[(''ian_id'', PStr ''IAN-1'')]" empty_store
        "''Forbidden: invalid signature''"]
    by blast
qed

section \<open>PPS to SPS status propagation\<close>

lemma mpps_update_found:
  assumes "truthy sps_uid" and "get_doc_sps sps_uid s = Some (i, sps)"
  shows "sps_status sps \<noteq> PStr ''Completed'' \<Longrightarrow>
           tab_sps (mpps_update_sps sps_uid pps_uid s)
             = (tab_sps s)[i := sps\<lparr>sps_status := PStr ''Completed''\<rparr>]
           \<and> sps_saves (mpps_update_sps sps_uid pps_uid s)
             = sps_saves s @ [Saved ''Scheduled Procedure Step'' sps_uid]"
    and "sps_status sps = PStr ''Completed'' \<Longrightarrow> mpps_update_sps sps_uid pps_uid s = s"
  using assms find_row_Some [of "\<lambda>d. sps_sps_uid d = sps_uid" "tab_sps s" i sps]
  by (auto simp: mpps_update_sps_def get_doc_sps_def save_sps_def sps_saves_def)

lemma get_doc_sps_insert_pps [simp]: "get_doc_sps k (insert_pps d s) = get_doc_sps k s"
  by (simp add: get_doc_sps_def insert_pps_def)

lemma sps_saves_simps [simp]:
  "sps_saves (insert_pps d s) = sps_saves s"
  "sps_saves (enqueue m k s) = sps_saves s"
  "tab_sps (insert_pps d s) = tab_sps s"
  "tab_sps (enqueue m k s) = tab_sps s"
  by (simp_all add: sps_saves_def store_ops)

text \<open>
  C6 (amended). When \<open>ingest_mpps\<close> creates a PPS whose payload references an SPS that
  exists: if the SPS status is not yet \<open>Completed\<close> it is set to \<open>Completed\<close> and saved
  (one save of that SPS is added to the writes); if it is already \<open>Completed\<close> the SPS
  table is unchanged and no save of an SPS is added. In the background job
  \<open>_process_pps\<close> the SPS status becomes \<open>Completed\<close> when the status of the PPS is
  \<open>COMPLETED\<close> and keeps its value otherwise.
\<close>

theorem sps_completed_once:
  "(fst (check_signature e payload h s) = Inr ()
      \<and> truthy (dict_get payload ''pps_uid'') \<and> get_all_pps (dict_get payload ''pps_uid'') s = []
      \<and> truthy (dict_get payload ''sps_uid'')
      \<and> get_doc_sps (dict_get payload ''sps_uid'') s = Some (i, sps) \<longrightarrow>
      fst (ingest_mpps e payload h s)
        = Inr [(''status'', PStr ''created''), (''pps_uid'', dict_get payload ''pps_uid'')]
      \<and> (if sps_status sps \<noteq> PStr ''Completed''
          then tab_sps (snd (ingest_mpps e payload h s))
                 = (tab_sps s)[i := sps\<lparr>sps_status := PStr ''Completed''\<rparr>]
               \<and> sps_saves (snd (ingest_mpps e payload h s))
                 = sps_saves s @ [Saved ''Scheduled Procedure Step'' (dict_get payload ''sps_uid'')]
          else tab_sps (snd (ingest_mpps e payload h s)) = tab_sps s
               \<and> sps_saves (snd (ingest_mpps e payload h s)) = sps_saves s))
   \<and> (get_doc_pps pps_uid s = Some (j, pps) \<and> truthy (pps_sps pps)
        \<and> get_doc_sps (pps_sps pps) s = Some (i, sps) \<longrightarrow>
      tab_sps (snd (process_pps e pps_uid s))
        = (tab_sps s)[i := sps\<lparr>sps_status :=
                              (if pps_status pps = PStr ''COMPLETED'' then PStr ''Completed''
                               else sps_status sps)\<rparr>])"
proof (intro conjI impI)
  assume a: "fst (check_signature e payload h s) = Inr ()
      \<and> truthy (dict_get payload ''pps_uid'') \<and> get_all_pps (dict_get payload ''pps_uid'') s = []
      \<and> truthy (dict_get payload ''sps_uid'')
      \<and> get_doc_sps (dict_get payload ''sps_uid'') s = Some (i, sps)"
  then have cs: "check_signature e payload h s = (Inr (), s)"
    using check_signature_passes by blast
  from a cs show "fst (ingest_mpps e payload h s)
        = Inr [(''status'', PStr ''created''), (''pps_uid'', dict_get payload ''pps_uid'')]"
    by (simp add: ingest_mpps_def Let_def)
  let ?d = "\<lparr> pps_pps_uid = dict_get payload ''pps_uid'',
              pps_sps = py_or (dict_get payload ''sps_uid'') (PStr []),
              pps_rp = py_or (dict_get payload ''rp_id'') (PStr []),
              pps_actor = py_or (dict_get payload ''actor'') (PStr []),
              pps_status = dict_get_default payload ''status'' (PStr ''COMPLETED''),
              pps_instance_uids = PStr (normalize_uids (dict_get payload ''instance_uids'')),
              pps_created_at = py_or (dict_get payload ''created_at'') (PStr (now e)) \<rparr>"
  from a have g: "get_doc_sps (dict_get payload ''sps_uid'') (insert_pps ?d s) = Some (i, sps)"
    by simp
  from a have t: "truthy (dict_get payload ''sps_uid'')" by blast
  note m = mpps_update_found [OF t g, of "dict_get payload ''pps_uid''"]
  show "if sps_status sps \<noteq> PStr ''Completed''
          then tab_sps (snd (ingest_mpps e payload h s))
                 = (tab_sps s)[i := sps\<lparr>sps_status := PStr ''Completed''\<rparr>]
               \<and> sps_saves (snd (ingest_mpps e payload h s))
                 = sps_saves s @ [Saved ''Scheduled Procedure Step'' (dict_get payload ''sps_uid'')]
          else tab_sps (snd (ingest_mpps e payload h s)) = tab_sps s
               \<and> sps_saves (snd (ingest_mpps e payload h s)) = sps_saves s"
    using a cs m by (simp add: ingest_mpps_def Let_def enqueue_process_pps_def)
next
  assume b: "get_doc_pps pps_uid s = Some (j, pps) \<and> truthy (pps_sps pps)
        \<and> get_doc_sps (pps_sps pps) s = Some (i, sps)"
  then have "tab_sps (process_pps_sps pps s)
        = (tab_sps s)[i := sps\<lparr>sps_status :=
                              (if pps_status pps = PStr ''COMPLETED'' then PStr ''Completed''
                               else sps_status sps)\<rparr>]"
    by (simp add: process_pps_sps_def save_sps_def)
  with b show "tab_sps (snd (process_pps e pps_uid s))
        = (tab_sps s)[i := sps\<lparr>sps_status :=
                              (if pps_status pps = PStr ''COMPLETED'' then PStr ''Completed''
                               else sps_status sps)\<rparr>]"
    by (simp add: process_pps_def Let_def bare_fold_eq split: sum.splits)
qed

text \<open>
  The theorem run on a store holding \<open>SPS-1\<close> as \<open>Scheduled\<close>: a first MPPS completes
  and saves it, a second MPPS for the now completed SPS adds no save; and
  \<open>_process_pps\<close> after \<open>create_pps\<close> with a completed PPS completes the SPS.
\<close>

theorem sps_completed_once_witness:
  "fst (check_signature test_env (mpps_payload ''PPS-1'' ''COMPLETED'') None (sps_store ''Scheduled''))
     = Inr ()
   \<and> get_doc_sps (PStr ''SPS-1'') (sps_store ''Scheduled'')
       = Some (0, \<lparr> sps_sps_uid = PStr ''SPS-1'', sps_status = PStr ''Scheduled'' \<rparr>)
   \<and> tab_sps (snd (ingest_mpps test_env (mpps_payload ''PPS-1'' ''COMPLETED'') None
                      (sps_store ''Scheduled'')))
       = [\<lparr> sps_sps_uid = PStr ''SPS-1'', sps_status = PStr ''Completed'' \<rparr>]
   \<and> sps_saves (snd (ingest_mpps test_env (mpps_payload ''PPS-1'' ''COMPLETED'') None
                        (sps_store ''Scheduled'')))
       = [Saved ''Scheduled Procedure Step'' (PStr ''SPS-1'')]
   \<and> sps_saves (snd (ingest_mpps test_env (mpps_payload ''PPS-2'' ''COMPLETED'') None
                        (snd (ingest_mpps test_env (mpps_payload ''PPS-1'' ''COMPLETED'') None
                                (sps_store ''Scheduled'')))))
       = [Saved ''Scheduled Procedure Step'' (PStr ''SPS-1'')]
   \<and> tab_sps (snd (process_pps test_env (PStr ''PPS-3'')
                      (snd (create_pps test_env (PStr ''PPS-3'') (PStr ''SPS-1'') PNone PNone
                              (PStr ''COMPLETED'') (PStr []) (sps_store ''Scheduled'')))))
       = [\<lparr> sps_sps_uid = PStr ''SPS-1'', sps_status = PStr ''Completed'' \<rparr>]"
proof -
  let ?p1 = "mpps_payload ''PPS-1'' ''COMPLETED''"
  let ?p2 = "mpps_payload ''PPS-2'' ''COMPLETED''"
  let ?s0 = "sps_store ''Scheduled''"
  let ?s1 = "snd (ingest_mpps test_env ?p1 None ?s0)"
  let ?s3 = "snd (create_pps test_env (PStr ''PPS-3'') (PStr ''SPS-1'') PNone PNone
                    (PStr ''COMPLETED'') (PStr []) ?s0)"
  let ?sch = "\<lparr> sps_sps_uid = PStr ''SPS-1'', sps_status = PStr ''Scheduled'' \<rparr>"
  let ?cpl = "\<lparr> sps_sps_uid = PStr ''SPS-1'', sps_status = PStr ''Completed'' \<rparr>"
  have h1: "fst (check_signature test_env ?p1 None ?s0) = Inr ()"
       "truthy (dict_get ?p1 ''pps_uid'')" "get_all_pps (dict_get ?p1 ''pps_uid'') ?s0 = []"
       "truthy (dict_get ?p1 ''sps_uid'')" "get_doc_sps (dict_get ?p1 ''sps_uid'') ?s0 = Some (0, ?sch)"
    by code_simp+
  have h2: "fst (check_signature test_env ?p2 None ?s1) = Inr ()"
       "truthy (dict_get ?p2 ''pps_uid'')" "get_all_pps (dict_get ?p2 ''pps_uid'') ?s1 = []"
       "truthy (dict_get ?p2 ''sps_uid'')" "get_doc_sps (dict_get ?p2 ''sps_uid'') ?s1 = Some (0, ?cpl)"
    by code_simp+
  have h3: "get_doc_pps (PStr ''PPS-3'') ?s3
              = Some (0, \<lparr> pps_pps_uid = PStr ''PPS-3'', pps_sps = PStr ''SPS-1'', pps_rp = PStr [],
                            pps_actor = PStr [], pps_status = PStr ''COMPLETED'',
                            pps_instance_uids = PStr [],
                            pps_created_at = PStr ''2025-11-14 16:00:00'' \<rparr>)"
       "get_doc_sps (PStr ''SPS-1'') ?s3 = Some (0, ?sch)"
    by code_simp+
  have v: "dict_get ?p1 ''sps_uid'' = PStr ''SPS-1''" "dict_get ?p2 ''sps_uid'' = PStr ''SPS-1''"
       "tab_sps ?s0 = [?sch]" "sps_saves ?s0 = []" "tab_sps ?s3 = [?sch]"
    by code_simp+
  note t1 = sps_completed_once [of test_env ?p1 None ?s0 0 ?sch]
  note t2 = sps_completed_once [of test_env ?p2 None ?s1 0 ?cpl]
  note t3 = sps_completed_once [of test_env _ _ ?s3 0 ?sch "PStr ''PPS-3''" 0
      "\<lparr> pps_pps_uid = PStr ''PPS-3'', pps_sps = PStr ''SPS-1'', pps_rp = PStr [],
         pps_actor = PStr [], pps_status = PStr ''COMPLETED'', pps_instance_uids = PStr [],
         pps_created_at = PStr ''2025-11-14 16:00:00'' \<rparr>"]
  have a: "tab_sps ?s1 = [?cpl]" "sps_saves ?s1 = [Saved ''Scheduled Procedure Step'' (PStr ''SPS-1'')]"
    using t1 h1 v by simp_all
  have b: "sps_saves (snd (ingest_mpps test_env ?p2 None ?s1))
             = [Saved ''Scheduled Procedure Step'' (PStr ''SPS-1'')]"
    using t2 h2 a by simp
  have c: "tab_sps (snd (process_pps test_env (PStr ''PPS-3'') ?s3)) = [?cpl]"
    using t3 h3 v by simp
  show ?thesis using h1(1) h1(5) v(1) a b c by simp
qed

text \<open>
  C6 as stated fails in \<open>_process_pps\<close>: a PPS with status \<open>DISCONTINUED\<close> that
  references the scheduled \<open>SPS-1\<close> leaves it \<open>Scheduled\<close>, and a PPS that references
  the already completed \<open>SPS-1\<close> still saves it.
\<close>

theorem process_pps_sps_counterexample:
  "tab_sps (snd (process_pps test_env (PStr ''PPS-1'')
                   (snd (create_pps test_env (PStr ''PPS-1'') (PStr ''SPS-1'') PNone PNone
                           (PStr ''DISCONTINUED'') (PStr []) (sps_store ''Scheduled'')))))
     = [\<lparr> sps_sps_uid = PStr ''SPS-1'', sps_status = PStr ''Scheduled'' \<rparr>]
   \<and> sps_saves (snd (create_pps test_env (PStr ''PPS-1'') (PStr ''SPS-1'') PNone PNone
                         (PStr ''COMPLETED'') (PStr []) (sps_store ''Completed''))) = []
   \<and> sps_saves (snd (process_pps test_env (PStr ''PPS-1'')
                     (snd (create_pps test_env (PStr ''PPS-1'') (PStr ''SPS-1'') PNone PNone
                             (PStr ''COMPLETED'') (PStr []) (sps_store ''Completed'')))))
     = [Saved ''Scheduled Procedure Step'' (PStr ''SPS-1'')]"
  by code_simp

section \<open>Idempotent resubmission\<close>







lemma tab_pps_mpps_update_sps [simp]: "tab_pps (mpps_update_sps a b s) = tab_pps s"
  by (simp add: mpps_update_sps_def store_ops split: option.splits)


text \<open>The gateway: what a 201 answer says about the call, and the replay.\<close>

lemma status_of_reply [simp]:
  "dict_get ((''status'', v) # rest) ''status'' = v"
  by (simp add: dict_get_def dict_get_default_def)






section \<open>SOPInstance get-or-create\<close>

lemma goc_tab_sop:
  "tab_sop (get_or_create_sopinstance e uid a p c s)
     = tab_sop s @ (if get_all_sop (PStr uid) s = [] then [new_sop e uid a p c] else [])"
  by (simp add: get_or_create_sopinstance_def insert_sop_def new_sop_def)

lemma goc_get_all:
  "get_all_sop k (get_or_create_sopinstance e uid a p c s)
     = (if k = PStr uid \<and> get_all_sop k s = [] then [new_sop e uid a p c] else get_all_sop k s)"
  by (auto simp: get_all_sop_def goc_tab_sop new_sop_def)

lemma goc_distinct:
  assumes "distinct (sop_keys s)"
  shows "distinct (sop_keys (get_or_create_sopinstance e uid a p c s))"
proof (cases "get_all_sop (PStr uid) s = []")
  case True
  then have "PStr uid \<notin> set (sop_keys s)"
    by (auto simp: get_all_sop_def sop_keys_def filter_empty_conv)
  with assms True show ?thesis by (simp add: sop_keys_def goc_tab_sop new_sop_def)
next
  case False
  with assms show ?thesis by (simp add: sop_keys_def goc_tab_sop)
qed

text \<open>The fan-out loop: a fold of get-or-create over the UID list.\<close>

lemma goc_fold_kept:
  assumes "get_all_sop k s \<noteq> []"
  shows "get_all_sop k (foldl (\<lambda>st u. get_or_create_sopinstance e u a p c st) s us) = get_all_sop k s"
  using assms by (induction us arbitrary: s) (simp_all add: goc_get_all)

lemma goc_fold_other:
  assumes "k \<notin> PStr ` set us"
  shows "get_all_sop k (foldl (\<lambda>st u. get_or_create_sopinstance e u a p c st) s us) = get_all_sop k s"
  using assms by (induction us arbitrary: s) (auto simp: goc_get_all)

lemma goc_fold_created:
  assumes "uid \<in> set us" and "get_all_sop (PStr uid) s = []"
  shows "get_all_sop (PStr uid) (foldl (\<lambda>st u. get_or_create_sopinstance e u a p c st) s us)
           = [new_sop e uid a p c]"
  using assms
proof (induction us arbitrary: s)
  case Nil
  then show ?case by simp
next
  case (Cons u us)
  show ?case
  proof (cases "u = uid")
    case True
    have "get_all_sop (PStr uid) (get_or_create_sopinstance e uid a p c s) = [new_sop e uid a p c]"
      using Cons.prems(2) by (simp add: goc_get_all)
    then show ?thesis using True goc_fold_kept [of "PStr uid" "get_or_create_sopinstance e uid a p c s"]
      by simp
  next
    case False
    then have "get_all_sop (PStr uid) (get_or_create_sopinstance e u a p c s) = []"
      using Cons.prems(2) by (simp add: goc_get_all)
    moreover have "uid \<in> set us" using Cons.prems(1) False by simp
    ultimately show ?thesis using Cons.IH by simp
  qed
qed

lemma goc_fold_present:
  assumes "uid \<in> set us"
  shows "get_all_sop (PStr uid) (foldl (\<lambda>st u. get_or_create_sopinstance e u a p c st) s us) \<noteq> []"
proof (cases "get_all_sop (PStr uid) s = []")
  case True
  then show ?thesis using goc_fold_created [OF assms True] by simp
next
  case False
  then show ?thesis using goc_fold_kept [OF False] by simp
qed

lemma goc_fold_grows:
  "\<exists>new. tab_sop (foldl (\<lambda>st u. get_or_create_sopinstance e u a p c st) s us) = tab_sop s @ new"
proof (induction us arbitrary: s)
  case Nil
  then show ?case by simp
next
  case (Cons u us)
  from Cons.IH [of "get_or_create_sopinstance e u a p c s"] show ?case
    by (auto simp: goc_tab_sop)
qed

lemma goc_fold_distinct:
  assumes "distinct (sop_keys s)"
  shows "distinct (sop_keys (foldl (\<lambda>st u. get_or_create_sopinstance e u a p c st) s us))"
  using assms by (induction us arbitrary: s) (simp_all add: goc_distinct)


lemma sop_continues_refl: "sop_continues s s"
  by (simp add: sop_continues_def)

lemma sop_continues_same: "tab_sop s' = tab_sop s \<Longrightarrow> sop_continues s s'"
  by (simp add: sop_continues_def sop_keys_def)

lemma sop_continues_trans:
  assumes "sop_continues s s'" and "sop_continues s' s''"
  shows "sop_continues s s''"
  using assms unfolding sop_continues_def sop_keys_def
  by (metis append.assoc distinct_append map_append)

lemma sop_continues_fold:
  "sop_continues s (foldl (\<lambda>st u. get_or_create_sopinstance e u a p c st) s us)"
  unfolding sop_continues_def using goc_fold_grows goc_fold_distinct by blast

lemma tab_sop_frame [simp]:
  "tab_sop (insert_ian d1 s) = tab_sop s"
  "tab_sop (insert_pps d2 s) = tab_sop s"
  "tab_sop (insert_ups d3 s) = tab_sop s"
  "tab_sop (insert_message d4 s) = tab_sop s"
  "tab_sop (save_sps i d5 s) = tab_sop s"
  "tab_sop (enqueue m k s) = tab_sop s"
  "tab_sop (log_error msg title s) = tab_sop s"
  "tab_sop (commit s) = tab_sop s"
  "tab_sop (enqueue_process_ian k s) = tab_sop s"
  "tab_sop (enqueue_process_pps k s) = tab_sop s"
  by (simp_all add: store_ops)

lemma tab_sop_sps_updates [simp]:
  "tab_sop (mpps_update_sps a b s) = tab_sop s"
  "tab_sop (process_pps_sps pps s) = tab_sop s"
  by (simp_all add: mpps_update_sps_def process_pps_sps_def split: option.splits)

lemma get_all_sop_cong: "tab_sop s' = tab_sop s \<Longrightarrow> get_all_sop k s' = get_all_sop k s"
  by (simp add: get_all_sop_def)

lemma check_signature_tab_sop [simp]: "tab_sop (snd (check_signature e p h s)) = tab_sop s"
  by (auto simp: check_signature_def verify_signature_def Let_def
           split: if_splits option.splits sum.splits pyval.splits prod.splits)

lemma sop_continues_cong:
  "tab_sop s'' = tab_sop s' \<Longrightarrow> sop_continues s s'' = sop_continues s s'"
  by (simp add: sop_continues_def sop_keys_def)

lemma sop_continues_frame [simp]:
  "sop_continues s (enqueue m k s') = sop_continues s s'"
  "sop_continues s (enqueue_process_ian k s') = sop_continues s s'"
  "sop_continues s (enqueue_process_pps k s') = sop_continues s s'"
  "sop_continues s (insert_ian d1 s') = sop_continues s s'"
  "sop_continues s (insert_pps d2 s') = sop_continues s s'"
  "sop_continues s (insert_ups d3 s') = sop_continues s s'"
  "sop_continues s (mpps_update_sps a b s') = sop_continues s s'"
  "sop_continues s (process_pps_sps pps s') = sop_continues s s'"
  by (rule sop_continues_cong, simp)+

lemma sop_continues_fold_from:
  assumes "sop_continues s s'"
  shows "sop_continues s (foldl (\<lambda>st u. get_or_create_sopinstance e u a p c st) s' us)"
  using assms sop_continues_fold sop_continues_trans by blast

lemma receive_ian_continues:
  "sop_continues s (snd (receive_ian e i src u a s))"
  by (auto simp: receive_ian_def Let_def ian_fold_eq sop_continues_refl
           intro!: sop_continues_fold_from split: sum.splits)

lemma create_pps_continues:
  "sop_continues s (snd (create_pps e i sps rp ac st u s))"
  by (simp add: create_pps_def Let_def sop_continues_refl)

lemma process_pps_continues:
  "sop_continues s (snd (process_pps e i s))"
  by (auto simp: process_pps_def Let_def bare_fold_eq sop_continues_refl
           intro!: sop_continues_fold_from split: sum.splits option.splits)

lemma create_ups_continues:
  "sop_continues s (snd (create_ups e i rp st ac u s))"
  by (auto simp: create_ups_def Let_def bare_fold_eq sop_continues_refl
           intro!: sop_continues_fold_from split: sum.splits)

lemma check_signature_continues: "sop_continues s (snd (check_signature e p h s))"
  by (rule sop_continues_same) simp

lemma ingest_ian_continues:
  "sop_continues s (snd (ingest_ian e p h s))"
proof -
  obtain res s0 where cs: "check_signature e p h s = (res, s0)" by (cases "check_signature e p h s")
  then have a: "sop_continues s s0" using check_signature_continues [of s e p h] by simp
  show ?thesis using cs a
    by (auto simp: ingest_ian_def Let_def intro!: sop_continues_fold_from split: sum.splits)
qed

lemma ingest_mpps_continues:
  "sop_continues s (snd (ingest_mpps e p h s))"
proof -
  obtain res s0 where cs: "check_signature e p h s = (res, s0)" by (cases "check_signature e p h s")
  then have a: "sop_continues s s0" using check_signature_continues [of s e p h] by simp
  show ?thesis using cs a
    by (auto simp: ingest_mpps_def Let_def intro!: sop_continues_fold_from split: sum.splits)
qed

lemma run_call_continues: "sop_continues s (run_call c s)"
  by (cases c)
     (simp_all add: receive_ian_continues create_pps_continues process_pps_continues
        create_ups_continues ingest_ian_continues ingest_mpps_continues)

lemma run_calls_continues: "sop_continues s (run_calls cs s)"
  unfolding run_calls_def
proof (induction cs arbitrary: s)
  case Nil
  then show ?case by (simp add: sop_continues_refl)
next
  case (Cons c cs)
  have "sop_continues s (run_call c s)" by (rule run_call_continues)
  moreover have "sop_continues (run_call c s) (foldl (\<lambda>st c. run_call c st) (run_call c s) cs)"
    by (rule Cons.IH)
  ultimately show ?case using sop_continues_trans by simp
qed

lemma distinct_at_most_one:
  "distinct (map f xs) \<Longrightarrow> length (filter (\<lambda>d. f d = k) xs) \<le> 1"
proof (induction xs)
  case Nil
  then show ?case by simp
next
  case (Cons x xs)
  have "f x = k \<Longrightarrow> filter (\<lambda>d. f d = k) xs = []"
  proof -
    assume "f x = k"
    then have "k \<notin> f ` set xs" using Cons.prems by auto
    then show "filter (\<lambda>d. f d = k) xs = []" by (auto simp: filter_empty_conv)
  qed
  moreover have "length (filter (\<lambda>d. f d = k) xs) \<le> 1" using Cons by simp
  ultimately show ?case by (cases "f x = k") simp_all
qed

lemma continues_first_write_wins:
  assumes c: "sop_continues s s'" and d: "distinct (sop_keys s)" and k: "get_all_sop k s \<noteq> []"
  shows "get_all_sop k s' = get_all_sop k s"
proof -
  from c obtain new where n: "tab_sop s' = tab_sop s @ new" and d': "distinct (sop_keys s')"
    using d by (auto simp: sop_continues_def)
  from k obtain r where r: "r \<in> set (tab_sop s)" "sop_sop_uid r = k"
    by (auto simp: get_all_sop_def filter_empty_conv)
  have "filter (\<lambda>d. sop_sop_uid d = k) new = []"
  proof (rule ccontr)
    assume "filter (\<lambda>d. sop_sop_uid d = k) new \<noteq> []"
    then obtain r' where r': "r' \<in> set new" "sop_sop_uid r' = k"
      by (auto simp: filter_empty_conv)
    from d' n have "set (map sop_sop_uid (tab_sop s)) \<inter> set (map sop_sop_uid new) = {}"
      by (simp add: sop_keys_def)
    with r r' show False by force
  qed
  then show ?thesis using n by (simp add: get_all_sop_def)
qed

text \<open>
  C4. Start from a store in which no two SOPInstance rows share a \<open>sop_uid\<close> (the empty
  store, for one) and run any sequence of \<open>receive_ian\<close>, \<open>create_pps\<close>, \<open>_process_pps\<close>,
  \<open>create_ups\<close>, \<open>ingest_ian\<close> and \<open>ingest_mpps\<close> calls, with any arguments, returning or
  raising. Afterwards no two rows share a \<open>sop_uid\<close>, so every \<open>sop_uid\<close> has at most one
  row; the rows that were there are still there in place and unchanged; and a \<open>sop_uid\<close>
  that had a row has exactly that row, whatever metadata later sightings carried.
\<close>

theorem sop_instance_unique_first_write_wins:
  assumes "distinct (sop_keys s)"
  shows "distinct (sop_keys (run_calls cs s))
         \<and> length (get_all_sop k (run_calls cs s)) \<le> 1
         \<and> (\<exists>new. tab_sop (run_calls cs s) = tab_sop s @ new)
         \<and> (get_all_sop k s \<noteq> [] \<longrightarrow> get_all_sop k (run_calls cs s) = get_all_sop k s)"
proof -
  have c: "sop_continues s (run_calls cs s)" by (rule run_calls_continues)
  with assms have d: "distinct (sop_keys (run_calls cs s))" by (simp add: sop_continues_def)
  then have "length (get_all_sop k (run_calls cs s)) \<le> 1"
    unfolding sop_keys_def get_all_sop_def by (rule distinct_at_most_one)
  moreover have "\<exists>new. tab_sop (run_calls cs s) = tab_sop s @ new"
    using c by (simp add: sop_continues_def)
  moreover have "get_all_sop k s \<noteq> [] \<longrightarrow> get_all_sop k (run_calls cs s) = get_all_sop k s"
    using continues_first_write_wins [OF c assms] by blast
  ultimately show ?thesis using d by blast
qed

text \<open>
  The theorem after a first IAN that created \<open>1.2.3.4\<close> with source, patient and
  accession number: the later sightings of \<open>second_sightings\<close> leave that row as it was.
\<close>

theorem sop_instance_unique_first_write_wins_witness:
  "distinct (sop_keys (snd (ingest_ian test_env (ian_payload ''IAN-1'') None empty_store)))
   \<and> get_all_sop (PStr ''1.2.3.4'') (snd (ingest_ian test_env (ian_payload ''IAN-1'') None empty_store))
       = [new_sop test_env ''1.2.3.4'' (PStr ''OrthancAE'') (PStr ''P12345'') (PStr ''ACC-9876'')]
   \<and> get_all_sop (PStr ''1.2.3.4'')
         (run_calls second_sightings
            (snd (ingest_ian test_env (ian_payload ''IAN-1'') None empty_store)))
       = [new_sop test_env ''1.2.3.4'' (PStr ''OrthancAE'') (PStr ''P12345'') (PStr ''ACC-9876'')]
   \<and> distinct (sop_keys (run_calls second_sightings
                             (snd (ingest_ian test_env (ian_payload ''IAN-1'') None empty_store))))
   \<and> sop_keys (run_calls second_sightings
                  (snd (ingest_ian test_env (ian_payload ''IAN-1'') None empty_store)))
       = [PStr ''1.2.3.4'', PStr ''1.2.3.5'', PStr ''7.7'', PStr ''8.8'']"
proof -
  let ?s1 = "snd (ingest_ian test_env (ian_payload ''IAN-1'') None empty_store)"
  have d: "distinct (sop_keys ?s1)" by code_simp
  have g: "get_all_sop (PStr ''1.2.3.4'') ?s1
             = [new_sop test_env ''1.2.3.4'' (PStr ''OrthancAE'') (PStr ''P12345'') (PStr ''ACC-9876'')]"
    by code_simp
  have k: "sop_keys (run_calls second_sightings ?s1)
             = [PStr ''1.2.3.4'', PStr ''1.2.3.5'', PStr ''7.7'', PStr ''8.8'']"
    by code_simp
  show ?thesis
    using sop_instance_unique_first_write_wins [OF d, of second_sightings "PStr ''1.2.3.4''"] d g k
    by simp
qed

section \<open>Fan-out to SOPInstance records\<close>

lemma get_all_sop_frame [simp]:
  "get_all_sop k (insert_ian d1 s) = get_all_sop k s"
  "get_all_sop k (insert_pps d2 s) = get_all_sop k s"
  "get_all_sop k (insert_ups d3 s) = get_all_sop k s"
  "get_all_sop k (enqueue m j s) = get_all_sop k s"
  "get_all_sop k (enqueue_process_ian j s) = get_all_sop k s"
  "get_all_sop k (enqueue_process_pps j s) = get_all_sop k s"
  "get_all_sop k (mpps_update_sps a b s) = get_all_sop k s"
  "get_all_sop k (process_pps_sps pps s) = get_all_sop k s"
  by (rule get_all_sop_cong, simp)+

lemma uid_list_empty [simp]: "uid_list [] = []"
  by (simp add: uid_list_def py_strip_def)

lemma find_row_appended:
  assumes "filter P xs = []" and "P x"
  shows "find_row P (xs @ [x]) = Some (length xs, x)"
  using assms by (induction xs) (auto split: if_splits)

text \<open>What the fold of get-or-create leaves for one UID of the list.\<close>

lemma fan_out_fold:
  assumes "uid \<in> set us"
  shows "get_all_sop (PStr uid) (foldl (\<lambda>st u. get_or_create_sopinstance e u a p c st) s us) \<noteq> []
         \<and> (get_all_sop (PStr uid) s = [] \<longrightarrow>
              get_all_sop (PStr uid) (foldl (\<lambda>st u. get_or_create_sopinstance e u a p c st) s us)
                = [new_sop e uid a p c])"
  using goc_fold_present [OF assms] goc_fold_created [OF assms] by blast

lemma receive_ian_fan_out:
  assumes "fst (receive_ian e ian_id source (PStr u) availability_status s)
             = Inr [(''status'', PStr ''created''), (''ian_id'', ian_id)]"
      and "uid \<in> set (uid_list u)"
  shows "get_all_sop (PStr uid) (snd (receive_ian e ian_id source (PStr u) availability_status s)) \<noteq> []
         \<and> (get_all_sop (PStr uid) s = [] \<longrightarrow>
              get_all_sop (PStr uid) (snd (receive_ian e ian_id source (PStr u) availability_status s))
                = [new_sop e uid (py_or source (PStr [])) PNone PNone])"
proof -
  let ?s1 = "insert_ian \<lparr> ian_ian_id = ian_id, ian_source = py_or source (PStr []),
                          ian_sop_instance_uids = py_or (PStr u) (PStr []),
                          ian_availability_status = availability_status,
                          ian_timestamp = PStr (now e) \<rparr> s"
  from assms(2) have ne: "u \<noteq> []" by auto
  from assms(1) ne have
    "snd (receive_ian e ian_id source (PStr u) availability_status s)
       = enqueue ''frappe_dwf.api._process_ian'' ian_id
           (foldl (\<lambda>st v. get_or_create_sopinstance e v (py_or source (PStr [])) PNone PNone st)
              ?s1 (uid_list u))"
    by (auto simp: receive_ian_def Let_def split_uid_value_def ian_fold_eq split: if_splits)
  then show ?thesis
    using fan_out_fold [OF assms(2), of e "py_or source (PStr [])" PNone PNone ?s1] by simp
qed

lemma create_ups_fan_out:
  assumes "fst (create_ups e ups_id rp_id (PStr ''COMPLETED'') actor (PStr u) s)
             = Inr [(''status'', PStr ''created''), (''ups_id'', ups_id)]"
      and "uid \<in> set (uid_list u)"
  shows "get_all_sop (PStr uid)
           (snd (create_ups e ups_id rp_id (PStr ''COMPLETED'') actor (PStr u) s)) \<noteq> []
         \<and> (get_all_sop (PStr uid) s = [] \<longrightarrow>
              get_all_sop (PStr uid)
                (snd (create_ups e ups_id rp_id (PStr ''COMPLETED'') actor (PStr u) s))
                = [new_sop e uid PNone PNone PNone])"
proof -
  from assms(2) have ne: "u \<noteq> []" by auto
  from assms(1) ne have
    "\<exists>d. snd (create_ups e ups_id rp_id (PStr ''COMPLETED'') actor (PStr u) s)
       = foldl (\<lambda>st v. get_or_create_sopinstance e v PNone PNone PNone st) (insert_ups d s)
           (uid_list u)"
    by (auto simp: create_ups_def Let_def split_uid_value_def bare_fold_eq split: if_splits)
  then obtain d where
    r: "snd (create_ups e ups_id rp_id (PStr ''COMPLETED'') actor (PStr u) s)
       = foldl (\<lambda>st v. get_or_create_sopinstance e v PNone PNone PNone st) (insert_ups d s)
           (uid_list u)"
    by blast
  show ?thesis
    using fan_out_fold [OF assms(2), of e PNone PNone PNone "insert_ups d s"] r by simp
qed

lemma ingest_ian_fan_out:
  assumes "fst (ingest_ian e payload h s)
             = Inr [(''status'', PStr ''created''), (''ian_id'', dict_get payload ''ian_id'')]"
      and "uid \<in> set (split_uids (normalize_uids (py_or (dict_get payload ''sop_instance_uids'')
                                                       (dict_get payload ''sop_uids''))))"
  shows "get_all_sop (PStr uid) (snd (ingest_ian e payload h s)) \<noteq> []
         \<and> (get_all_sop (PStr uid) s = [] \<longrightarrow>
              get_all_sop (PStr uid) (snd (ingest_ian e payload h s))
                = [new_sop e uid (dict_get payload ''source'') (dict_get payload ''patient_id'')
                     (dict_get payload ''accession_number'')])"
proof -
  obtain res s0 where cs: "check_signature e payload h s = (res, s0)"
    by (cases "check_signature e payload h s")
  with assms(1) obtain w where "res = Inr w" by (cases res) (auto simp: ingest_ian_def)
  with cs have c: "check_signature e payload h s = (Inr (), s)"
    using check_signature_store [of e payload h s w s0] by simp
  from assms(1) c have
    "\<exists>d. snd (ingest_ian e payload h s)
       = enqueue_process_ian (dict_get payload ''ian_id'')
           (foldl (\<lambda>st v. get_or_create_sopinstance e v (dict_get payload ''source'')
                     (dict_get payload ''patient_id'') (dict_get payload ''accession_number'') st)
              (insert_ian d s)
              (split_uids (normalize_uids (py_or (dict_get payload ''sop_instance_uids'')
                                                 (dict_get payload ''sop_uids'')))))"
    by (auto simp: ingest_ian_def Let_def split: if_splits)
  then obtain d where
    r: "snd (ingest_ian e payload h s)
       = enqueue_process_ian (dict_get payload ''ian_id'')
           (foldl (\<lambda>st v. get_or_create_sopinstance e v (dict_get payload ''source'')
                     (dict_get payload ''patient_id'') (dict_get payload ''accession_number'') st)
              (insert_ian d s)
              (split_uids (normalize_uids (py_or (dict_get payload ''sop_instance_uids'')
                                                 (dict_get payload ''sop_uids'')))))"
    by blast
  show ?thesis
    using fan_out_fold [OF assms(2), of e "dict_get payload ''source''"
        "dict_get payload ''patient_id''" "dict_get payload ''accession_number''" "insert_ian d s"] r
    by simp
qed

lemma ingest_mpps_fan_out:
  assumes "fst (ingest_mpps e payload h s)
             = Inr [(''status'', PStr ''created''), (''pps_uid'', dict_get payload ''pps_uid'')]"
      and "uid \<in> set (split_uids (normalize_uids (dict_get payload ''instance_uids'')))"
  shows "get_all_sop (PStr uid) (snd (ingest_mpps e payload h s)) \<noteq> []
         \<and> (get_all_sop (PStr uid) s = [] \<longrightarrow>
              get_all_sop (PStr uid) (snd (ingest_mpps e payload h s))
                = [new_sop e uid (dict_get payload ''actor'') (dict_get payload ''patient_id'')
                     (dict_get payload ''accession_number'')])"
proof -
  obtain res s0 where cs: "check_signature e payload h s = (res, s0)"
    by (cases "check_signature e payload h s")
  with assms(1) obtain w where "res = Inr w" by (cases res) (auto simp: ingest_mpps_def)
  with cs have c: "check_signature e payload h s = (Inr (), s)"
    using check_signature_store [of e payload h s w s0] by simp
  from assms(1) c have
    "\<exists>d. snd (ingest_mpps e payload h s)
       = enqueue_process_pps (dict_get payload ''pps_uid'')
           (foldl (\<lambda>st v. get_or_create_sopinstance e v (dict_get payload ''actor'')
                     (dict_get payload ''patient_id'') (dict_get payload ''accession_number'') st)
              (mpps_update_sps (dict_get payload ''sps_uid'') (dict_get payload ''pps_uid'')
                 (insert_pps d s))
              (split_uids (normalize_uids (dict_get payload ''instance_uids''))))"
    by (auto simp: ingest_mpps_def Let_def split: if_splits)
  then obtain d where
    r: "snd (ingest_mpps e payload h s)
       = enqueue_process_pps (dict_get payload ''pps_uid'')
           (foldl (\<lambda>st v. get_or_create_sopinstance e v (dict_get payload ''actor'')
                     (dict_get payload ''patient_id'') (dict_get payload ''accession_number'') st)
              (mpps_update_sps (dict_get payload ''sps_uid'') (dict_get payload ''pps_uid'')
                 (insert_pps d s))
              (split_uids (normalize_uids (dict_get payload ''instance_uids''))))"
    by blast
  show ?thesis
    using fan_out_fold [OF assms(2), of e "dict_get payload ''actor''"
        "dict_get payload ''patient_id''" "dict_get payload ''accession_number''"
        "mpps_update_sps (dict_get payload ''sps_uid'') (dict_get payload ''pps_uid'')
           (insert_pps d s)"] r
    by simp
qed

lemma create_pps_fan_out:
  assumes "fst (create_pps e pps_uid sps_uid rp_id actor status (PStr u) s)
             = Inr [(''status'', PStr ''created''), (''pps_uid'', pps_uid)]"
      and "uid \<in> set (uid_list u)"
  shows "Job ''frappe_dwf.api._process_pps'' pps_uid
           \<in> set (queue (snd (create_pps e pps_uid sps_uid rp_id actor status (PStr u) s)))
         \<and> fst (process_pps e' pps_uid
                  (snd (create_pps e pps_uid sps_uid rp_id actor status (PStr u) s))) = Inr ()
         \<and> get_all_sop (PStr uid)
             (snd (process_pps e' pps_uid
                     (snd (create_pps e pps_uid sps_uid rp_id actor status (PStr u) s)))) \<noteq> []
         \<and> (get_all_sop (PStr uid) s = [] \<longrightarrow>
              get_all_sop (PStr uid)
                (snd (process_pps e' pps_uid
                        (snd (create_pps e pps_uid sps_uid rp_id actor status (PStr u) s))))
                = [new_sop e' uid PNone PNone PNone])"
proof -
  let ?d = "\<lparr> pps_pps_uid = pps_uid, pps_sps = py_or sps_uid (PStr []),
              pps_rp = py_or rp_id (PStr []), pps_actor = py_or actor (PStr []),
              pps_status = status, pps_instance_uids = py_or (PStr u) (PStr []),
              pps_created_at = PStr (now e) \<rparr>"
  let ?s1 = "enqueue ''frappe_dwf.api._process_pps'' pps_uid (insert_pps ?d s)"
  from assms(2) have ne: "u \<noteq> []" by auto
  from assms(1) have new: "get_all_pps pps_uid s = []" and t: "truthy pps_uid"
    and s1: "snd (create_pps e pps_uid sps_uid rp_id actor status (PStr u) s) = ?s1"
    by (auto simp: create_pps_def Let_def split: if_splits)
  have q: "Job ''frappe_dwf.api._process_pps'' pps_uid \<in> set (queue ?s1)"
    by (simp add: store_ops)
  have g: "get_doc_pps pps_uid ?s1 = Some (length (tab_pps s), ?d)"
    using new find_row_appended [of "\<lambda>d. pps_pps_uid d = pps_uid" "tab_pps s" ?d]
    by (simp add: get_doc_pps_def get_all_pps_def store_ops)
  have i: "py_or (pps_instance_uids ?d) (PStr []) = PStr u" using ne by (simp add: py_or_def)
  have p: "process_pps e' pps_uid ?s1
             = (Inr (), foldl (\<lambda>st v. get_or_create_sopinstance e' v PNone PNone PNone st)
                          (process_pps_sps ?d ?s1) (uid_list u))"
    using g i by (simp add: process_pps_def Let_def split_uid_value_def bare_fold_eq del: py_or_def)
  show ?thesis
    using fan_out_fold [OF assms(2), of e' PNone PNone PNone "process_pps_sps ?d ?s1"] q p s1
    by simp
qed

lemma create_pps_enqueues:
  assumes "fst (create_pps e pps_uid sps_uid rp_id actor status instance_uids s)
             = Inr [(''status'', PStr ''created''), (''pps_uid'', pps_uid)]"
  shows "Job ''frappe_dwf.api._process_pps'' pps_uid
           \<in> set (queue (snd (create_pps e pps_uid sps_uid rp_id actor status instance_uids s)))"
  using assms by (auto simp: create_pps_def Let_def store_ops split: if_splits)

lemma create_ups_no_fan_out:
  assumes "ups_status \<noteq> PStr ''COMPLETED''"
  shows "tab_sop (snd (create_ups e ups_id rp_id ups_status actor instance_uids s)) = tab_sop s"
  using assms by (simp add: create_ups_def Let_def insert_ups_def)

lemma create_pps_no_fan_out:
  "tab_sop (snd (create_pps e pps_uid sps_uid rp_id actor status instance_uids s)) = tab_sop s"
  by (simp add: create_pps_def Let_def insert_pps_def enqueue_def)

text \<open>
  C5 (amended). After a call that created the entity, every UID of the normalized UID list
  of the request has a SOPInstance row, and a UID that had none has exactly the row the
  get-or-create makes for it: for \<open>receive_ian\<close> with the source as \<open>stored_at_aet\<close>; for
  \<open>ingest_ian\<close> and \<open>ingest_mpps\<close> with source (or actor), patient id and accession
  number of the payload, whatever the status in the payload; for \<open>create_ups\<close> when
  \<open>ups_status\<close> is \<open>COMPLETED\<close>; and for \<open>create_pps\<close> once the job it enqueues,
  \<open>_process_pps\<close>, has run, whatever the status of the PPS. The fan-out of
  \<open>create_ups\<close> happens only then: with any other \<open>ups_status\<close>, whatever the other
  arguments, the call leaves the SOPInstance table as it was. So does \<open>create_pps\<close>
  itself, whose fan-out is the job's.
\<close>

theorem fan_out_creates_sop_instances:
  "(fst (receive_ian e ian_id source (PStr u) availability_status s)
      = Inr [(''status'', PStr ''created''), (''ian_id'', ian_id)] \<longrightarrow>
    (\<forall>uid \<in> set (uid_list u).
       get_all_sop (PStr uid) (snd (receive_ian e ian_id source (PStr u) availability_status s)) \<noteq> []
       \<and> (get_all_sop (PStr uid) s = [] \<longrightarrow>
            get_all_sop (PStr uid) (snd (receive_ian e ian_id source (PStr u) availability_status s))
              = [new_sop e uid (py_or source (PStr [])) PNone PNone])))
   \<and> (fst (ingest_ian e payload h s)
        = Inr [(''status'', PStr ''created''), (''ian_id'', dict_get payload ''ian_id'')] \<longrightarrow>
      (\<forall>uid \<in> set (split_uids (normalize_uids (py_or (dict_get payload ''sop_instance_uids'')
                                                        (dict_get payload ''sop_uids'')))).
         get_all_sop (PStr uid) (snd (ingest_ian e payload h s)) \<noteq> []
         \<and> (get_all_sop (PStr uid) s = [] \<longrightarrow>
              get_all_sop (PStr uid) (snd (ingest_ian e payload h s))
                = [new_sop e uid (dict_get payload ''source'') (dict_get payload ''patient_id'')
                     (dict_get payload ''accession_number'')])))
   \<and> (fst (ingest_mpps e payload h s)
        = Inr [(''status'', PStr ''created''), (''pps_uid'', dict_get payload ''pps_uid'')] \<longrightarrow>
      (\<forall>uid \<in> set (split_uids (normalize_uids (dict_get payload ''instance_uids''))).
         get_all_sop (PStr uid) (snd (ingest_mpps e payload h s)) \<noteq> []
         \<and> (get_all_sop (PStr uid) s = [] \<longrightarrow>
              get_all_sop (PStr uid) (snd (ingest_mpps e payload h s))
                = [new_sop e uid (dict_get payload ''actor'') (dict_get payload ''patient_id'')
                     (dict_get payload ''accession_number'')])))
   \<and> (fst (create_ups e ups_id rp_id (PStr ''COMPLETED'') actor (PStr u) s)
        = Inr [(''status'', PStr ''created''), (''ups_id'', ups_id)] \<longrightarrow>
      (\<forall>uid \<in> set (uid_list u).
         get_all_sop (PStr uid)
           (snd (create_ups e ups_id rp_id (PStr ''COMPLETED'') actor (PStr u) s)) \<noteq> []
         \<and> (get_all_sop (PStr uid) s = [] \<longrightarrow>
              get_all_sop (PStr uid)
                (snd (create_ups e ups_id rp_id (PStr ''COMPLETED'') actor (PStr u) s))
                = [new_sop e uid PNone PNone PNone])))
   \<and> (fst (create_pps e pps_uid sps_uid rp_id actor status (PStr u) s)
        = Inr [(''status'', PStr ''created''), (''pps_uid'', pps_uid)] \<longrightarrow>
      Job ''frappe_dwf.api._process_pps'' pps_uid
        \<in> set (queue (snd (create_pps e pps_uid sps_uid rp_id actor status (PStr u) s)))
      \<and> (\<forall>uid \<in> set (uid_list u).
         fst (process_pps e' pps_uid
                  (snd (create_pps e pps_uid sps_uid rp_id actor status (PStr u) s))) = Inr ()
         \<and> get_all_sop (PStr uid)
             (snd (process_pps e' pps_uid
                     (snd (create_pps e pps_uid sps_uid rp_id actor status (PStr u) s)))) \<noteq> []
         \<and> (get_all_sop (PStr uid) s = [] \<longrightarrow>
              get_all_sop (PStr uid)
                (snd (process_pps e' pps_uid
                        (snd (create_pps e pps_uid sps_uid rp_id actor status (PStr u) s))))
                = [new_sop e' uid PNone PNone PNone])))
   \<and> (ups_status \<noteq> PStr ''COMPLETED'' \<longrightarrow>
      tab_sop (snd (create_ups e ups_id rp_id ups_status actor instance_uids s)) = tab_sop s)
   \<and> tab_sop (snd (create_pps e pps_uid sps_uid rp_id actor status instance_uids s)) = tab_sop s"
  using receive_ian_fan_out [of e ian_id source u availability_status s]
    ingest_ian_fan_out [of e payload h s] ingest_mpps_fan_out [of e payload h s]
    create_ups_fan_out [of e ups_id rp_id actor u s]
    create_pps_fan_out [of e pps_uid sps_uid rp_id actor status u s _ e']
    create_pps_enqueues [of e pps_uid sps_uid rp_id actor status "PStr u" s]
    create_ups_no_fan_out [of ups_status e ups_id rp_id actor instance_uids s]
    create_pps_no_fan_out [of e pps_uid sps_uid rp_id actor status instance_uids s]
  by (intro conjI impI ballI) blast+

text \<open>
  The theorem on the empty store, one UID per entry point; the MPPS payload carries the
  status \<open>DISCONTINUED\<close> and the PPS of \<open>create_pps\<close> the status \<open>IN PROGRESS\<close>. A UPS
  created with the status \<open>FAILED\<close> leaves the SOPInstance table empty.
\<close>

theorem fan_out_creates_sop_instances_witness:
  "fst (receive_ian test_env (PStr ''IAN-1'') (PStr ''PACS1'') (PStr ''1.2.3, 1.2.4'')
          (PStr ''Available'') empty_store)
     = Inr [(''status'', PStr ''created''), (''ian_id'', PStr ''IAN-1'')]
   \<and> ''1.2.4'' \<in> set (uid_list ''1.2.3, 1.2.4'')
   \<and> get_all_sop (PStr ''1.2.4'')
        (snd (receive_ian test_env (PStr ''IAN-1'') (PStr ''PACS1'') (PStr ''1.2.3, 1.2.4'')
                (PStr ''Available'') empty_store))
       = [new_sop test_env ''1.2.4'' (PStr ''PACS1'') PNone PNone]
   \<and> get_all_sop (PStr ''1.2.3.5'') (snd (ingest_ian test_env (ian_payload ''IAN-2'') None empty_store))
       = [new_sop test_env ''1.2.3.5'' (PStr ''OrthancAE'') (PStr ''P12345'') (PStr ''ACC-9876'')]
   \<and> get_all_sop (PStr ''1.2.4'')
        (snd (ingest_mpps test_env (mpps_payload ''PPS-1'' ''DISCONTINUED'') None empty_store))
       = [new_sop test_env ''1.2.4'' PNone PNone PNone]
   \<and> get_all_sop (PStr ''1.2.9'')
        (snd (create_ups test_env (PStr ''UPS-1'') PNone (PStr ''COMPLETED'') PNone (PStr ''1.2.9'')
                empty_store))
       = [new_sop test_env ''1.2.9'' PNone PNone PNone]
   \<and> get_all_sop (PStr ''1.2.7'')
        (snd (process_pps test_env (PStr ''PPS-2'')
                (snd (create_pps test_env (PStr ''PPS-2'') PNone PNone PNone (PStr ''IN PROGRESS'')
                        (PStr ''1.2.7'') empty_store))))
       = [new_sop test_env ''1.2.7'' PNone PNone PNone]
   \<and> PStr ''FAILED'' \<noteq> PStr ''COMPLETED''
   \<and> tab_sop (snd (create_ups test_env (PStr ''UPS-2'') PNone (PStr ''FAILED'') PNone
                     (PStr ''1.2.9'') empty_store)) = []"
proof -
  note t = fan_out_creates_sop_instances
  have h: "fst (receive_ian test_env (PStr ''IAN-1'') (PStr ''PACS1'') (PStr ''1.2.3, 1.2.4'')
                  (PStr ''Available'') empty_store)
             = Inr [(''status'', PStr ''created''), (''ian_id'', PStr ''IAN-1'')]"
    "fst (ingest_ian test_env (ian_payload ''IAN-2'') None empty_store)
       = Inr [(''status'', PStr ''created''), (''ian_id'', dict_get (ian_payload ''IAN-2'') ''ian_id'')]"
    "fst (ingest_mpps test_env (mpps_payload ''PPS-1'' ''DISCONTINUED'') None empty_store)
       = Inr [(''status'', PStr ''created''),
              (''pps_uid'', dict_get (mpps_payload ''PPS-1'' ''DISCONTINUED'') ''pps_uid'')]"
    "fst (create_ups test_env (PStr ''UPS-1'') PNone (PStr ''COMPLETED'') PNone (PStr ''1.2.9'')
            empty_store)
       = Inr [(''status'', PStr ''created''), (''ups_id'', PStr ''UPS-1'')]"
    "fst (create_pps test_env (PStr ''PPS-2'') PNone PNone PNone (PStr ''IN PROGRESS'')
            (PStr ''1.2.7'') empty_store)
       = Inr [(''status'', PStr ''created''), (''pps_uid'', PStr ''PPS-2'')]"
    by code_simp+
  have m: "''1.2.4'' \<in> set (uid_list ''1.2.3, 1.2.4'')"
    "''1.2.3.5'' \<in> set (split_uids (normalize_uids
        (py_or (dict_get (ian_payload ''IAN-2'') ''sop_instance_uids'')
               (dict_get (ian_payload ''IAN-2'') ''sop_uids''))))"
    "''1.2.4'' \<in> set (split_uids (normalize_uids
        (dict_get (mpps_payload ''PPS-1'' ''DISCONTINUED'') ''instance_uids'')))"
    "''1.2.9'' \<in> set (uid_list ''1.2.9'')" "''1.2.7'' \<in> set (uid_list ''1.2.7'')"
    by code_simp+
  have v: "dict_get (ian_payload ''IAN-2'') ''source'' = PStr ''OrthancAE''"
    "dict_get (ian_payload ''IAN-2'') ''patient_id'' = PStr ''P12345''"
    "dict_get (ian_payload ''IAN-2'') ''accession_number'' = PStr ''ACC-9876''"
    "dict_get (mpps_payload ''PPS-1'' ''DISCONTINUED'') ''actor'' = PNone"
    "dict_get (mpps_payload ''PPS-1'' ''DISCONTINUED'') ''patient_id'' = PNone"
    "dict_get (mpps_payload ''PPS-1'' ''DISCONTINUED'') ''accession_number'' = PNone"
    "py_or (PStr ''PACS1'') (PStr []) = PStr ''PACS1''"
    by code_simp+
  have e: "get_all_sop k empty_store = []" for k by (simp add: get_all_sop_def empty_store_def)
  have a: "get_all_sop (PStr ''1.2.4'')
        (snd (receive_ian test_env (PStr ''IAN-1'') (PStr ''PACS1'') (PStr ''1.2.3, 1.2.4'')
                (PStr ''Available'') empty_store))
       = [new_sop test_env ''1.2.4'' (PStr ''PACS1'') PNone PNone]"
    using t [THEN conjunct1, rule_format, OF h(1) m(1)] e v(7) by simp
  have b: "get_all_sop (PStr ''1.2.3.5'') (snd (ingest_ian test_env (ian_payload ''IAN-2'') None empty_store))
       = [new_sop test_env ''1.2.3.5'' (PStr ''OrthancAE'') (PStr ''P12345'') (PStr ''ACC-9876'')]"
    using t [THEN conjunct2, THEN conjunct1, rule_format, OF h(2) m(2)] e v by simp
  have c: "get_all_sop (PStr ''1.2.4'')
        (snd (ingest_mpps test_env (mpps_payload ''PPS-1'' ''DISCONTINUED'') None empty_store))
       = [new_sop test_env ''1.2.4'' PNone PNone PNone]"
    using t [THEN conjunct2, THEN conjunct2, THEN conjunct1, rule_format, OF h(3) m(3)] e v by simp
  have d: "get_all_sop (PStr ''1.2.9'')
        (snd (create_ups test_env (PStr ''UPS-1'') PNone (PStr ''COMPLETED'') PNone (PStr ''1.2.9'')
                empty_store))
       = [new_sop test_env ''1.2.9'' PNone PNone PNone]"
    using t [THEN conjunct2, THEN conjunct2, THEN conjunct2, THEN conjunct1, rule_format,
             OF h(4) m(4)] e by simp
  have f: "get_all_sop (PStr ''1.2.7'')
        (snd (process_pps test_env (PStr ''PPS-2'')
                (snd (create_pps test_env (PStr ''PPS-2'') PNone PNone PNone (PStr ''IN PROGRESS'')
                        (PStr ''1.2.7'') empty_store))))
       = [new_sop test_env ''1.2.7'' PNone PNone PNone]"
    using t [THEN conjunct2, THEN conjunct2, THEN conjunct2, THEN conjunct2, THEN conjunct1,
             rule_format, OF h(5), THEN conjunct2, rule_format, OF m(5), of test_env] e by simp
  have n: "PStr ''FAILED'' \<noteq> PStr ''COMPLETED''" by simp
  have g: "tab_sop (snd (create_ups test_env (PStr ''UPS-2'') PNone (PStr ''FAILED'') PNone
                     (PStr ''1.2.9'') empty_store)) = []"
    using t [THEN conjunct2, THEN conjunct2, THEN conjunct2, THEN conjunct2, THEN conjunct2,
             THEN conjunct1, rule_format, OF n,
             of test_env "PStr ''UPS-2''" PNone PNone "PStr ''1.2.9''" empty_store]
    by (simp add: empty_store_def)
  show ?thesis using h(1) m(1) a b c d f n g by simp
qed

text \<open>
  C5 as stated fails for \<open>create_ups\<close> with a status other than \<open>COMPLETED\<close>, whose
  fan-out the source guards with \<open>ups_status == 'COMPLETED'\<close>, and for \<open>create_pps\<close>
  itself, which leaves the fan-out to the job it enqueues: both calls create the entity
  and leave no SOPInstance row for the UID of the request.
\<close>

theorem fan_out_status_counterexample:
  "fst (create_ups test_env (PStr ''UPS-1'') PNone (PStr ''SCHEDULED'') PNone (PStr ''1.2.3'')
          empty_store)
     = Inr [(''status'', PStr ''created''), (''ups_id'', PStr ''UPS-1'')]
   \<and> uid_list ''1.2.3'' = [''1.2.3'']
   \<and> get_all_sop (PStr ''1.2.3'')
        (snd (create_ups test_env (PStr ''UPS-1'') PNone (PStr ''SCHEDULED'') PNone (PStr ''1.2.3'')
                empty_store)) = []
   \<and> fst (create_pps test_env (PStr ''PPS-1'') PNone PNone PNone (PStr ''COMPLETED'') (PStr ''1.2.3'')
            empty_store)
     = Inr [(''status'', PStr ''created''), (''pps_uid'', PStr ''PPS-1'')]
   \<and> get_all_sop (PStr ''1.2.3'')
        (snd (create_pps test_env (PStr ''PPS-1'') PNone PNone PNone (PStr ''COMPLETED'')
                (PStr ''1.2.3'') empty_store)) = []"
  by code_simp

section \<open>The gateway never raises\<close>














end
